theory Spec2Isabelle
  imports Complex_Main "HOL-Library.Multiset"
begin

section \<open>Strings and errors\<close>

text \<open>
  JavaScript's \<^verbatim>\<open>String.prototype.startsWith\<close> and \<^verbatim>\<open>String.prototype.includes\<close>,
  case sensitive, on strings as lists of characters.
\<close>

fun startsWith :: "string \<Rightarrow> string \<Rightarrow> bool" where
  "startsWith s [] = True"
| "startsWith [] (p # ps) = False"
| "startsWith (c # cs) (p # ps) = (c = p \<and> startsWith cs ps)"

fun includes_str :: "string \<Rightarrow> string \<Rightarrow> bool" where
  "includes_str [] sub = (sub = [])"
| "includes_str (c # cs) sub = (startsWith (c # cs) sub \<or> includes_str cs sub)"

text \<open>
  Every failure in the resolvers and the middleware is a plain \<^verbatim>\<open>new Error(message)\<close>:
  the message is the only thing that tells one failure from another.
\<close>

datatype error = Error string

fun error_message :: "error \<Rightarrow> string" where
  "error_message (Error m) = m"

section \<open>Request context builder and authorization guard (middleware/auth.ts)\<close>

text \<open>The token the identity provider decodes, and the user the context carries.\<close>

record DecodedIdToken =
  token_uid :: string
  token_email :: "string option"
  token_phone_number :: "string option"
  token_claims :: "(string \<times> bool) list"

record FirebaseUser =
  uid :: string
  email :: "string option"
  phone_number :: "string option"
  custom_claims :: DecodedIdToken

record GraphQLContext =
  isAuthenticated :: bool
  user :: "FirebaseUser option"

text \<open>
  The parts of the inbound request the middleware reads: the authorization header, the
  forwarded-for header (one value or several) and the peer address of the connection.
\<close>

datatype header = Single string | Multiple "string list"

record Request =
  authorization :: "string option"
  x_forwarded_for :: "header option"
  remoteAddress :: "string option"

text \<open>
  What the context builder does besides returning: calls to the identity provider's
  \<^verbatim>\<open>verifyIdToken\<close> and log lines, in order.
\<close>

datatype effect =
    VerifyIdToken string
  | LogDebug string
  | LogWarn string
  | LogError string

definition unauthenticated :: GraphQLContext where
  "unauthenticated = \<lparr>isAuthenticated = False, user = None\<rparr>"

text \<open>
  \<^verbatim>\<open>authMiddleware\<close>. The identity provider is the parameter \<open>verifyIdToken\<close>, which
  either rejects the token (\<open>Inl\<close>, the exception the inner \<^verbatim>\<open>catch\<close> receives) or
  decodes it. The empty header is falsy in JavaScript and takes the first branch, as the
  absent one does. The result pairs the effects with what the promise settles to:
  \<open>Inl\<close> would be a rejection. Nothing outside the inner \<^verbatim>\<open>try\<close> raises, so the outer
  \<^verbatim>\<open>catch\<close> has no branch here.
\<close>

definition authMiddleware ::
  "(string \<Rightarrow> error + DecodedIdToken) \<Rightarrow> Request \<Rightarrow> effect list \<times> (error + GraphQLContext)" where
  "authMiddleware verifyIdToken req =
     (case authorization req of
        None \<Rightarrow> ([], Inr unauthenticated)
      | Some authHeader \<Rightarrow>
          if authHeader = [] \<or> \<not> startsWith authHeader ''Bearer '' then ([], Inr unauthenticated)
          else
            let token = drop 7 authHeader
            in (case verifyIdToken token of
                  Inr decodedToken \<Rightarrow>
                    ([VerifyIdToken token, LogDebug ''User authenticated successfully''],
                     Inr \<lparr>isAuthenticated = True,
                          user = Some \<lparr>uid = token_uid decodedToken,
                                       email = token_email decodedToken,
                                       phone_number = token_phone_number decodedToken,
                                       custom_claims = decodedToken\<rparr>\<rparr>)
                | Inl tokenError \<Rightarrow>
                    ([VerifyIdToken token, LogWarn ''Invalid Firebase token:''],
                     Inr unauthenticated)))"

text \<open>
  \<^verbatim>\<open>requireAuth\<close>: the user of the context, or the error \<^verbatim>\<open>Authentication required\<close>
  when the context is not authenticated or carries no user (the source tests the flag
  first; both tests raise the same error).
\<close>

definition requireAuth :: "GraphQLContext \<Rightarrow> error + FirebaseUser" where
  "requireAuth context =
     (case user context of
        None \<Rightarrow> Inl (Error ''Authentication required'')
      | Some u \<Rightarrow>
          if \<not> isAuthenticated context then Inl (Error ''Authentication required'')
          else Inr u)"

section \<open>Error classifier (middleware/errorHandler.ts)\<close>

record ApolloGraphQLError =
  err_message :: string
  err_extensions :: "(string \<times> string) list"

record GraphQLError =
  message :: string
  code :: string
  statusCode :: int
  extensions :: "(string \<times> string) list"

text \<open>
  \<^verbatim>\<open>errorHandler\<close>, with \<open>production\<close> standing for
  \<^verbatim>\<open>process.env.NODE_ENV === 'production'\<close>. The branches are tried in the source's order.
\<close>

definition errorHandler :: "bool \<Rightarrow> ApolloGraphQLError \<Rightarrow> GraphQLError" where
  "errorHandler production error =
     (if includes_str (err_message error) ''Authentication required'' then
        \<lparr>message = ''Authentication required'', code = ''UNAUTHENTICATED'', statusCode = 401,
         extensions = [(''code'', ''UNAUTHENTICATED'')]\<rparr>
      else if includes_str (err_message error) ''Insufficient permissions'' then
        \<lparr>message = ''Insufficient permissions'', code = ''FORBIDDEN'', statusCode = 403,
         extensions = [(''code'', ''FORBIDDEN'')]\<rparr>
      else if includes_str (err_message error) ''not found'' then
        \<lparr>message = ''Resource not found'', code = ''NOT_FOUND'', statusCode = 404,
         extensions = [(''code'', ''NOT_FOUND'')]\<rparr>
      else if includes_str (err_message error) ''duplicate key''
              \<or> includes_str (err_message error) ''already exists'' then
        \<lparr>message = ''Resource already exists'', code = ''CONFLICT'', statusCode = 409,
         extensions = [(''code'', ''CONFLICT'')]\<rparr>
      else if includes_str (err_message error) ''validation'' then
        \<lparr>message = ''Validation error'', code = ''BAD_USER_INPUT'', statusCode = 400,
         extensions = [(''code'', ''BAD_USER_INPUT'')]\<rparr>
      else if includes_str (err_message error) ''database''
              \<or> includes_str (err_message error) ''connection'' then
        \<lparr>message = ''Database error occurred'', code = ''INTERNAL_SERVER_ERROR'', statusCode = 500,
         extensions = [(''code'', ''INTERNAL_SERVER_ERROR'')]\<rparr>
      else if production then
        \<lparr>message = ''An unexpected error occurred'', code = ''INTERNAL_SERVER_ERROR'',
         statusCode = 500, extensions = [(''code'', ''INTERNAL_SERVER_ERROR'')]\<rparr>
      else
        \<lparr>message = err_message error, code = ''INTERNAL_SERVER_ERROR'', statusCode = 500,
         extensions = err_extensions error\<rparr>)"

text \<open>
  The error the formatter receives when a resolver throws: the server wraps the thrown
  \<^verbatim>\<open>Error\<close> and keeps its message.
\<close>

definition thrown :: "error \<Rightarrow> ApolloGraphQLError" where
  "thrown e = \<lparr>err_message = error_message e, err_extensions = []\<rparr>"

section \<open>Rate limiter (middleware/rateLimiter.ts)\<close>

text \<open>Times are milliseconds since the epoch, as \<^verbatim>\<open>Date.now()\<close> gives them.\<close>

record entry =
  count :: int
  resetTime :: int

record InMemoryRateLimiter =
  store :: "string \<rightharpoonup> entry"
  windowMs :: int
  maxRequests :: int

record decision =
  allowed :: bool
  decision_resetTime :: int
  remaining :: int

text \<open>
  The instance the module creates when \<^verbatim>\<open>RATE_LIMIT_WINDOW_MS\<close> and
  \<^verbatim>\<open>RATE_LIMIT_MAX_REQUESTS\<close> are not set.
\<close>

definition rateLimiter :: InMemoryRateLimiter where
  "rateLimiter = \<lparr>store = Map.empty, windowMs = 900000, maxRequests = 100\<rparr>"

text \<open>
  \<^verbatim>\<open>getKey\<close>: the first forwarded address when the header is there (and not the empty
  string, which is falsy), the peer address otherwise. A missing address prints as
  \<^verbatim>\<open>undefined\<close> in the template string.
\<close>

definition getKey :: "Request \<Rightarrow> string" where
  "getKey req =
     (let remote = (case remoteAddress req of None \<Rightarrow> ''undefined'' | Some a \<Rightarrow> a);
          ip = (case x_forwarded_for req of
                  None \<Rightarrow> remote
                | Some (Multiple xs) \<Rightarrow> (case xs of [] \<Rightarrow> ''undefined'' | x # _ \<Rightarrow> x)
                | Some (Single s) \<Rightarrow>
                    if s = [] then remote else takeWhile (\<lambda>c. c \<noteq> CHR '','') s)
      in ''rate_limit:'' @ ip)"

definition cleanup :: "InMemoryRateLimiter \<Rightarrow> int \<Rightarrow> InMemoryRateLimiter" where
  "cleanup rl now =
     rl\<lparr>store := (\<lambda>key. case store rl key of
                          None \<Rightarrow> None
                        | Some e \<Rightarrow> if resetTime e < now then None else Some e)\<rparr>"

definition isAllowed ::
  "InMemoryRateLimiter \<Rightarrow> Request \<Rightarrow> int \<Rightarrow> decision \<times> InMemoryRateLimiter" where
  "isAllowed rl req now =
     (let key = getKey req;
          fresh = (\<lparr>allowed = True, decision_resetTime = now + windowMs rl,
                    remaining = maxRequests rl - 1\<rparr>,
                   rl\<lparr>store := (store rl)(key \<mapsto> \<lparr>count = 1, resetTime = now + windowMs rl\<rparr>)\<rparr>)
      in case store rl key of
           None \<Rightarrow> fresh
         | Some e \<Rightarrow>
             if resetTime e < now then fresh
             else
               let e' = e\<lparr>count := count e + 1\<rparr>
               in (\<lparr>allowed = (count e' \<le> maxRequests rl), decision_resetTime = resetTime e',
                    remaining = max 0 (maxRequests rl - count e')\<rparr>,
                   rl\<lparr>store := (store rl)(key \<mapsto> e')\<rparr>))"

text \<open>\<^verbatim>\<open>Math.ceil(a / b)\<close> on integers \<open>a\<close> and positive \<open>b\<close>.\<close>

definition ceil_div :: "int \<Rightarrow> int \<Rightarrow> int" where
  "ceil_div a b = - ((- a) div b)"

text \<open>
  The middleware's answer: the three headers it always sets (the limit header repeats the
  configured maximum), and either the call of \<^verbatim>\<open>next()\<close> or the 429 body with its
  \<^verbatim>\<open>retryAfter\<close>. The second reading of the clock, for \<^verbatim>\<open>retryAfter\<close>, is \<open>now'\<close>.
\<close>

datatype outcome = Next | TooManyRequests int

record response =
  x_ratelimit_limit :: int
  x_ratelimit_remaining :: int
  x_ratelimit_reset :: int
  outcome :: outcome

definition rateLimiterMiddleware ::
  "InMemoryRateLimiter \<Rightarrow> Request \<Rightarrow> int \<Rightarrow> int \<Rightarrow> response \<times> InMemoryRateLimiter" where
  "rateLimiterMiddleware rl req now now' =
     (let (d, rl') = isAllowed rl req now
      in (\<lparr>x_ratelimit_limit = maxRequests rl,
           x_ratelimit_remaining = remaining d,
           x_ratelimit_reset = decision_resetTime d,
           outcome = (if \<not> allowed d
                      then TooManyRequests (ceil_div (decision_resetTime d - now') 1000)
                      else Next)\<rparr>, rl'))"

text \<open>
  What happens to the limiter over time: a request arrives (with the two clock readings
  of its handling), or the periodic sweep runs. \<open>responses_for key\<close> collects, in order,
  the answers to the requests of one key.
\<close>

datatype event = Arrive Request int int | Sweep int

fun responses_for :: "string \<Rightarrow> InMemoryRateLimiter \<Rightarrow> event list \<Rightarrow> response list" where
  "responses_for key rl [] = []"
| "responses_for key rl (Arrive req now now' # es) =
     (let (r, rl') = rateLimiterMiddleware rl req now now'
      in (if getKey req = key then [r] else []) @ responses_for key rl' es)"
| "responses_for key rl (Sweep now # es) = responses_for key (cleanup rl now) es"

text \<open>
  An event that falls inside the window opened at \<open>start\<close> and ending at \<open>reset\<close>: it
  is handled no later than \<open>reset\<close>, and the clock read for \<^verbatim>\<open>retryAfter\<close> is not
  before \<open>start\<close>.
\<close>

fun in_window :: "int \<Rightarrow> int \<Rightarrow> event \<Rightarrow> bool" where
  "in_window start reset (Arrive req now now') = (now \<le> reset \<and> start \<le> now')"
| "in_window start reset (Sweep now) = (now \<le> reset)"

fun arrives_for :: "string \<Rightarrow> event \<Rightarrow> bool" where
  "arrives_for key (Arrive req now now') = (getKey req = key)"
| "arrives_for key (Sweep now) = False"

section \<open>The relational store (database/schema.sql, config/database.ts)\<close>

text \<open>
  The tables of \<^verbatim>\<open>schema.sql\<close>, each a list of rows, with the columns the resolvers
  below read or write; the other columns pass through every statement unchanged and are
  left out. Status columns hold the literals of their enumerated types.
\<close>

record Trip =
  trip_id :: string
  trip_driver_id :: string
  trip_status :: string

record Booking =
  booking_id :: string
  booking_trip_id :: string
  rider_id :: string
  booking_status :: string
  booking_payment_status :: string

record Payment =
  payment_id :: string
  payment_booking_id :: string
  paystack_reference :: string
  paystack_transaction_id :: "string option"
  payment_status :: string

record Review =
  review_id :: string
  review_booking_id :: string
  reviewer_id :: string
  reviewee_id :: string
  rating :: int
  comment :: "string option"

record DriverProfile =
  profile_user_id :: string
  average_rating :: "rat option"

record Vehicle =
  vehicle_id :: string
  vehicle_driver_id :: string

text \<open>
  The store: its tables, and the statements \<^verbatim>\<open>query\<close> has executed so far (each call
  of \<^verbatim>\<open>query\<close> runs one statement and logs it).
\<close>

record Database =
  trips :: "Trip list"
  bookings :: "Booking list"
  payments :: "Payment list"
  reviews :: "Review list"
  driver_profiles :: "DriverProfile list"
  vehicles :: "Vehicle list"
  executed :: "string list"



definition payment_status_enum :: "string list" where
  "payment_status_enum = [''pending'', ''paid'', ''failed'', ''refunded'']"

text \<open>
  A statement that assigns a literal to a column of an enumerated type is rejected by the
  store when the literal is not a value of the type: no row is read or written, and
  \<^verbatim>\<open>query\<close> rethrows the store's error (its message, here without the quotes around
  the literal). \<open>enum_input\<close> is that error, or \<open>None\<close> when the literal is accepted. The
  literals the trip and booking resolvers assign are values of their types, so those
  statements are never rejected for this reason and the check is written out only in the
  payment resolvers.
\<close>

definition enum_input :: "string \<Rightarrow> string list \<Rightarrow> string \<Rightarrow> error option" where
  "enum_input type_name values literal =
     (if literal \<in> set values then None
      else Some (Error (''invalid input value for enum '' @ type_name @ '': '' @ literal)))"

text \<open>
  What a statement does to a table and what rows it hands back to \<^verbatim>\<open>query\<close>:
  \<^verbatim>\<open>UPDATE t SET ... WHERE p\<close> rewrites the matching rows in place, and its
  \<^verbatim>\<open>RETURNING *\<close> hands back the rewritten rows; \<^verbatim>\<open>DELETE FROM t WHERE p\<close> removes the
  matching rows. A statement without \<^verbatim>\<open>RETURNING\<close> hands back no rows.
\<close>

definition update_where :: "('r \<Rightarrow> bool) \<Rightarrow> ('r \<Rightarrow> 'r) \<Rightarrow> 'r list \<Rightarrow> 'r list" where
  "update_where p f rows = map (\<lambda>r. if p r then f r else r) rows"

definition returning :: "('r \<Rightarrow> bool) \<Rightarrow> ('r \<Rightarrow> 'r) \<Rightarrow> 'r list \<Rightarrow> 'r list" where
  "returning p f rows = map f (filter p rows)"

definition delete_where :: "('r \<Rightarrow> bool) \<Rightarrow> 'r list \<Rightarrow> 'r list" where
  "delete_where p rows = filter (\<lambda>r. \<not> p r) rows"

definition without_returning :: "'r list" where
  "without_returning = []"

text \<open>\<^verbatim>\<open>result[0]\<close>: the first row, or \<^verbatim>\<open>undefined\<close>.\<close>

definition first_row :: "'r list \<Rightarrow> 'r option" where
  "first_row rows = (case rows of [] \<Rightarrow> None | r # _ \<Rightarrow> Some r)"

definition log_query :: "string \<Rightarrow> Database \<Rightarrow> Database" where
  "log_query text db = db\<lparr>executed := executed db @ [text]\<rparr>"

section \<open>Trip resolvers (resolvers/tripResolvers.ts)\<close>

text \<open>
  \<^verbatim>\<open>cancelTrip\<close>, \<^verbatim>\<open>startTrip\<close> and \<^verbatim>\<open>completeTrip\<close> have the same body up to the
  status literal in the statement, which is the parameter \<open>status\<close> of
  \<open>update_trip_status\<close>.
\<close>

definition update_trip_status ::
  "string \<Rightarrow> GraphQLContext \<Rightarrow> string \<Rightarrow> Database \<Rightarrow> (error + Trip) \<times> Database" where
  "update_trip_status status context ident db =
     (case requireAuth context of
        Inl e \<Rightarrow> (Inl e, db)
      | Inr u \<Rightarrow>
          let matches = (\<lambda>t. trip_id t = ident \<and> trip_driver_id t = uid u);
              assign = (\<lambda>t. t\<lparr>trip_status := status\<rparr>);
              result = returning matches assign (trips db);
              db' = log_query (''UPDATE trips SET trip_status = '' @ status
                                 @ '' WHERE id = $1 AND driver_id = $2 RETURNING *'')
                      (db\<lparr>trips := update_where matches assign (trips db)\<rparr>)
          in (case first_row result of
                None \<Rightarrow> (Inl (Error ''Trip not found or unauthorized''), db')
              | Some row \<Rightarrow> (Inr row, db')))"

definition cancelTrip :: "GraphQLContext \<Rightarrow> string \<Rightarrow> Database \<Rightarrow> (error + Trip) \<times> Database" where
  "cancelTrip context ident db = update_trip_status ''cancelled'' context ident db"

definition startTrip :: "GraphQLContext \<Rightarrow> string \<Rightarrow> Database \<Rightarrow> (error + Trip) \<times> Database" where
  "startTrip context ident db = update_trip_status ''active'' context ident db"

definition completeTrip :: "GraphQLContext \<Rightarrow> string \<Rightarrow> Database \<Rightarrow> (error + Trip) \<times> Database" where
  "completeTrip context ident db = update_trip_status ''completed'' context ident db"

section \<open>Vehicle deletion (resolvers/userResolvers.ts)\<close>

text \<open>
  \<^verbatim>\<open>deleteVehicle\<close>. Its statement has no \<^verbatim>\<open>RETURNING\<close> clause, so \<^verbatim>\<open>query\<close>
  resolves to no rows, whatever the statement removed.
\<close>

definition deleteVehicle :: "GraphQLContext \<Rightarrow> string \<Rightarrow> Database \<Rightarrow> (error + bool) \<times> Database" where
  "deleteVehicle context ident db =
     (case requireAuth context of
        Inl e \<Rightarrow> (Inl e, db)
      | Inr u \<Rightarrow>
          let matches = (\<lambda>v. vehicle_id v = ident \<and> vehicle_driver_id v = uid u);
              result = (without_returning :: Vehicle list);
              db' = log_query ''DELETE FROM vehicles WHERE id = $1 AND driver_id = $2''
                      (db\<lparr>vehicles := delete_where matches (vehicles db)\<rparr>)
          in (Inr (length result > 0), db'))"

section \<open>Booking resolvers (resolvers/bookingResolvers.ts)\<close>

definition confirmBooking ::
  "GraphQLContext \<Rightarrow> string \<Rightarrow> Database \<Rightarrow> (error + Booking) \<times> Database" where
  "confirmBooking context ident db =
     (case requireAuth context of
        Inl e \<Rightarrow> (Inl e, db)
      | Inr u \<Rightarrow>
          let matches = (\<lambda>b. booking_id b = ident);
              assign = (\<lambda>b. b\<lparr>booking_status := ''confirmed''\<rparr>);
              result = returning matches assign (bookings db);
              db' = log_query ''UPDATE bookings SET booking_status = confirmed WHERE id = $1 RETURNING *''
                      (db\<lparr>bookings := update_where matches assign (bookings db)\<rparr>)
          in (case first_row result of
                None \<Rightarrow> (Inl (Error ''Booking not found''), db')
              | Some row \<Rightarrow> (Inr row, db')))"

definition cancelBooking ::
  "GraphQLContext \<Rightarrow> string \<Rightarrow> Database \<Rightarrow> (error + Booking) \<times> Database" where
  "cancelBooking context ident db =
     (case requireAuth context of
        Inl e \<Rightarrow> (Inl e, db)
      | Inr u \<Rightarrow>
          let matches = (\<lambda>b. booking_id b = ident \<and> rider_id b = uid u);
              assign = (\<lambda>b. b\<lparr>booking_status := ''cancelled''\<rparr>);
              result = returning matches assign (bookings db);
              db' = log_query ''UPDATE bookings SET booking_status = cancelled WHERE id = $1 AND rider_id = $2 RETURNING *''
                      (db\<lparr>bookings := update_where matches assign (bookings db)\<rparr>)
          in (case first_row result of
                None \<Rightarrow> (Inl (Error ''Booking not found or unauthorized''), db')
              | Some row \<Rightarrow> (Inr row, db')))"

section \<open>Payment resolvers (resolvers/paymentResolvers.ts)\<close>

text \<open>
  \<^verbatim>\<open>verifyPayment\<close>; \<open>txn\<close> is the mock transaction id the resolver builds from the
  clock. Its first statement assigns the literal \<^verbatim>\<open>completed\<close> to
  \<^verbatim>\<open>payments.payment_status\<close>, its second the literal \<^verbatim>\<open>paid\<close> to
  \<^verbatim>\<open>bookings.payment_status\<close>; each statement is first checked against the column's
  type. The second statement runs only when the first handed back a row. The resolver
  uses no transaction, so what the first statement wrote stays when the second fails.
\<close>

definition verifyPayment ::
  "GraphQLContext \<Rightarrow> string \<Rightarrow> string \<Rightarrow> Database \<Rightarrow> (error + Payment) \<times> Database" where
  "verifyPayment context reference txn db =
     (case requireAuth context of
        Inl e \<Rightarrow> (Inl e, db)
      | Inr u \<Rightarrow>
          (case enum_input ''payment_status'' payment_status_enum ''completed'' of
             Some rejected \<Rightarrow> (Inl rejected, db)
           | None \<Rightarrow>
               let matches = (\<lambda>p. paystack_reference p = reference);
                   assign = (\<lambda>p. p\<lparr>payment_status := ''completed'',
                                       paystack_transaction_id := Some txn\<rparr>);
                   result = returning matches assign (payments db);
                   db' = log_query ''UPDATE payments SET payment_status = completed, paystack_transaction_id = $1, gateway_response = $2 WHERE paystack_reference = $3 RETURNING *''
                           (db\<lparr>payments := update_where matches assign (payments db)\<rparr>)
               in (case first_row result of
                     None \<Rightarrow> (Inl (Error ''Payment not found''), db')
                   | Some row \<Rightarrow>
                       (case enum_input ''payment_status'' payment_status_enum ''paid'' of
                          Some rejected \<Rightarrow> (Inl rejected, db')
                        | None \<Rightarrow>
                            (Inr row,
                             log_query ''UPDATE bookings SET payment_status = paid WHERE id = $1''
                               (db'\<lparr>bookings :=
                                      update_where (\<lambda>b. booking_id b = payment_booking_id row)
                                        (\<lambda>b. b\<lparr>booking_payment_status := ''paid''\<rparr>)
                                        (bookings db')\<rparr>))))))"

text \<open>
  \<^verbatim>\<open>processRefund\<close>: both statements assign the literal \<^verbatim>\<open>refunded\<close>, checked in the
  same way.
\<close>

definition processRefund ::
  "GraphQLContext \<Rightarrow> string \<Rightarrow> Database \<Rightarrow> (error + Payment) \<times> Database" where
  "processRefund context paymentId db =
     (case requireAuth context of
        Inl e \<Rightarrow> (Inl e, db)
      | Inr u \<Rightarrow>
          (case enum_input ''payment_status'' payment_status_enum ''refunded'' of
             Some rejected \<Rightarrow> (Inl rejected, db)
           | None \<Rightarrow>
               let matches = (\<lambda>p. payment_id p = paymentId);
                   assign = (\<lambda>p. p\<lparr>payment_status := ''refunded''\<rparr>);
                   result = returning matches assign (payments db);
                   db' = log_query ''UPDATE payments SET payment_status = refunded WHERE id = $1 RETURNING *''
                           (db\<lparr>payments := update_where matches assign (payments db)\<rparr>)
               in (case first_row result of
                     None \<Rightarrow> (Inl (Error ''Payment not found''), db')
                   | Some row \<Rightarrow>
                       (case enum_input ''payment_status'' payment_status_enum ''refunded'' of
                          Some rejected \<Rightarrow> (Inl rejected, db')
                        | None \<Rightarrow>
                            (Inr row,
                             log_query ''UPDATE bookings SET payment_status = refunded WHERE id = $1''
                               (db'\<lparr>bookings :=
                                      update_where (\<lambda>b. booking_id b = payment_booking_id row)
                                        (\<lambda>b. b\<lparr>booking_payment_status := ''refunded''\<rparr>)
                                        (bookings db')\<rparr>))))))"

section \<open>Review creation (resolvers/reviewResolvers.ts)\<close>

text \<open>
  \<^verbatim>\<open>AVG(rating)\<close> over the selected rows is exact (\<^verbatim>\<open>numeric\<close>) and is \<^verbatim>\<open>NULL\<close>
  when there are none. The cast to \<^verbatim>\<open>DECIMAL(3,2)\<close> rounds to two decimal places, ties
  away from zero. Ratings lie between 1 and 5 by the table's \<^verbatim>\<open>CHECK\<close>, so the cast
  cannot overflow its three digits.
\<close>

definition sql_avg :: "int list \<Rightarrow> rat option" where
  "sql_avg xs = (if xs = [] then None else Some (of_int (sum_list xs) / of_nat (length xs)))"

definition decimal_3_2 :: "rat \<Rightarrow> rat" where
  "decimal_3_2 q =
     (if 0 \<le> q then of_int \<lfloor>q * 100 + 1 / 2\<rfloor> / 100
      else - (of_int \<lfloor>- q * 100 + 1 / 2\<rfloor> / 100))"

text \<open>
  The joined rows of \<^verbatim>\<open>SELECT b.*, t.driver_id FROM bookings b JOIN trips t ON
  b.trip_id = t.id WHERE b.id = $1 AND (b.rider_id = $2 OR t.driver_id = $2)\<close>: each is a
  booking with the driver of its trip.
\<close>

definition booking_with_driver :: "string \<Rightarrow> string \<Rightarrow> Database \<Rightarrow> (Booking \<times> string) list" where
  "booking_with_driver bookingId caller db =
     concat (map (\<lambda>b. map (\<lambda>t. (b, trip_driver_id t))
                           (filter (\<lambda>t. booking_trip_id b = trip_id t
                                         \<and> booking_id b = bookingId
                                         \<and> (rider_id b = caller \<or> trip_driver_id t = caller))
                              (trips db)))
                 (bookings db))"

text \<open>
  \<^verbatim>\<open>createReview\<close>; \<open>newId\<close> is the identifier \<^verbatim>\<open>uuidv4()\<close> generates. An empty
  comment is stored as \<^verbatim>\<open>NULL\<close> (\<^verbatim>\<open>comment || null\<close>).
\<close>

definition createReview ::
  "GraphQLContext \<Rightarrow> string \<Rightarrow> int \<Rightarrow> string option \<Rightarrow> string \<Rightarrow> Database
     \<Rightarrow> (error + Review) \<times> Database" where
  "createReview context bookingId rating' comment' newId db =
     (case requireAuth context of
        Inl e \<Rightarrow> (Inl e, db)
      | Inr u \<Rightarrow>
          if rating' < 1 \<or> rating' > 5 then (Inl (Error ''Rating must be between 1 and 5''), db)
          else
            let bookingResult = booking_with_driver bookingId (uid u) db;
                db1 = log_query ''SELECT b.*, t.driver_id FROM bookings b JOIN trips t ON b.trip_id = t.id WHERE b.id = $1 AND (b.rider_id = $2 OR t.driver_id = $2)'' db
            in (case first_row bookingResult of
                  None \<Rightarrow> (Inl (Error ''Booking not found or unauthorized''), db1)
                | Some (booking, driver_id) \<Rightarrow>
                    let revieweeId = (if rider_id booking = uid u then driver_id else rider_id booking);
                        existingReview = filter (\<lambda>r. review_booking_id r = bookingId
                                                      \<and> reviewer_id r = uid u) (reviews db1);
                        db2 = log_query ''SELECT id FROM reviews WHERE booking_id = $1 AND reviewer_id = $2'' db1
                    in if existingReview \<noteq> [] then
                         (Inl (Error ''Review already exists for this booking''), db2)
                       else
                         let row = \<lparr>review_id = newId, review_booking_id = bookingId,
                                    reviewer_id = uid u, reviewee_id = revieweeId,
                                    rating = rating',
                                    comment = (case comment' of
                                                 None \<Rightarrow> None
                                               | Some c \<Rightarrow> if c = [] then None else Some c)\<rparr>;
                             result = [row];
                             db3 = log_query ''INSERT INTO reviews (id, booking_id, reviewer_id, reviewee_id, rating, comment, created_at) VALUES ($1, $2, $3, $4, $5, $6, NOW()) RETURNING *''
                                     (db2\<lparr>reviews := reviews db2 @ [row]\<rparr>);
                             db4 = (if rider_id booking = uid u then
                                      log_query ''UPDATE driver_profiles SET average_rating = (SELECT AVG(rating)::DECIMAL(3,2) FROM reviews WHERE reviewee_id = $1) WHERE user_id = $1''
                                        (db3\<lparr>driver_profiles :=
                                               update_where (\<lambda>p. profile_user_id p = revieweeId)
                                                 (\<lambda>p. p\<lparr>average_rating :=
                                                          map_option decimal_3_2
                                                            (sql_avg (map rating
                                                               (filter (\<lambda>r. reviewee_id r = revieweeId)
                                                                  (reviews db3))))\<rparr>)
                                                 (driver_profiles db3)\<rparr>)
                                    else db3)
                         in (case first_row result of
                               None \<Rightarrow> (Inl (Error ''Failed to create review''), db4)
                             | Some created \<Rightarrow> (Inr created, db4))))"

text \<open>
  A series of \<^verbatim>\<open>createReview\<close> calls, each given as (context, booking, rating, comment,
  new id), all of which succeed: \<open>None\<close> as soon as one fails.
\<close>

type_synonym review_call = "GraphQLContext \<times> string \<times> int \<times> string option \<times> string"

fun createReviews :: "review_call list \<Rightarrow> Database \<Rightarrow> Database option" where
  "createReviews [] db = Some db"
| "createReviews ((context, bookingId, rating', comment', newId) # calls) db =
     (case createReview context bookingId rating' comment' newId db of
        (Inl e, db') \<Rightarrow> None
      | (Inr created, db') \<Rightarrow> createReviews calls db')"

section \<open>Example data\<close>

definition client :: Request where
  "client = \<lparr>authorization = None, x_forwarded_for = None, remoteAddress = Some ''10.0.0.1''\<rparr>"

definition proxied_client :: Request where
  "proxied_client = \<lparr>authorization = None,
                      x_forwarded_for = Some (Single ''10.0.0.2, 10.0.0.9''),
                      remoteAddress = Some ''10.0.0.1''\<rparr>"

definition rider_token :: DecodedIdToken where
  "rider_token = \<lparr>token_uid = ''rider-1'', token_email = Some ''rider@example.com'',
                   token_phone_number = None, token_claims = []\<rparr>"

definition driver_token :: DecodedIdToken where
  "driver_token = \<lparr>token_uid = ''driver-1'', token_email = Some ''driver@example.com'',
                    token_phone_number = None, token_claims = []\<rparr>"

text \<open>An identity provider that knows two tokens and rejects every other one.\<close>

definition example_provider :: "string \<Rightarrow> error + DecodedIdToken" where
  "example_provider token =
     (if token = ''rider-token'' then Inr rider_token
      else if token = ''driver-token'' then Inr driver_token
      else Inl (Error ''Firebase ID token has expired''))"

definition context_of :: "string \<Rightarrow> GraphQLContext" where
  "context_of ident =
     \<lparr>isAuthenticated = True,
      user = Some \<lparr>uid = ident, email = None, phone_number = None,
                   custom_claims = \<lparr>token_uid = ident, token_email = None,
                                    token_phone_number = None, token_claims = []\<rparr>\<rparr>\<rparr>"

text \<open>
  A small store: driver-1 offers trip t1 and owns vehicle v1, driver-2 offers trip t2;
  rider-1, rider-2 and rider-3 have booked seats on t1, and rider-1's booking has a
  pending payment.
\<close>

definition example_db :: Database where
  "example_db =
     \<lparr>trips = [\<lparr>trip_id = ''t1'', trip_driver_id = ''driver-1'', trip_status = ''scheduled''\<rparr>,
               \<lparr>trip_id = ''t2'', trip_driver_id = ''driver-2'', trip_status = ''scheduled''\<rparr>],
      bookings = [\<lparr>booking_id = ''b1'', booking_trip_id = ''t1'', rider_id = ''rider-1'',
                    booking_status = ''pending'', booking_payment_status = ''pending''\<rparr>,
                  \<lparr>booking_id = ''b2'', booking_trip_id = ''t1'', rider_id = ''rider-2'',
                    booking_status = ''pending'', booking_payment_status = ''pending''\<rparr>,
                  \<lparr>booking_id = ''b3'', booking_trip_id = ''t1'', rider_id = ''rider-3'',
                    booking_status = ''pending'', booking_payment_status = ''pending''\<rparr>],
      payments = [\<lparr>payment_id = ''p1'', payment_booking_id = ''b1'',
                    paystack_reference = ''yenko_1_abcdef12'', paystack_transaction_id = None,
                    payment_status = ''pending''\<rparr>],
      reviews = [],
      driver_profiles = [\<lparr>profile_user_id = ''driver-1'', average_rating = Some 0\<rparr>],
      vehicles = [\<lparr>vehicle_id = ''v1'', vehicle_driver_id = ''driver-1''\<rparr>],
      executed = []\<rparr>"

text \<open>The same store after rider-1 has reviewed booking b1 with five stars.\<close>

definition reviewed_db :: Database where
  "reviewed_db =
     example_db\<lparr>reviews := [\<lparr>review_id = ''rv1'', review_booking_id = ''b1'',
                              reviewer_id = ''rider-1'', reviewee_id = ''driver-1'',
                              rating = 5, comment = None\<rparr>],
                 driver_profiles := [\<lparr>profile_user_id = ''driver-1'', average_rating = Some 5\<rparr>]\<rparr>"

text \<open>The three riders of trip t1 review its driver: 5, 4 and 4 stars.\<close>

definition three_reviews :: "review_call list" where
  "three_reviews =
     [(context_of ''rider-1'', ''b1'', 5, None, ''rv1''),
      (context_of ''rider-2'', ''b2'', 4, Some ''fine'', ''rv2''),
      (context_of ''rider-3'', ''b3'', 4, None, ''rv3'')]"

definition three_reviews_reordered :: "review_call list" where
  "three_reviews_reordered =
     [(context_of ''rider-3'', ''b3'', 4, None, ''rv3''),
      (context_of ''rider-1'', ''b1'', 5, None, ''rv1''),
      (context_of ''rider-2'', ''b2'', 4, Some ''fine'', ''rv2'')]"

section \<open>Auxiliary predicates\<close>

text \<open>
  What one answer of the rate limiter must look like when it is the answer to the
  \<open>n\<close>-th request of a window opened at \<open>start\<close> and ending at \<open>reset\<close>, with limit \<open>M\<close>.
\<close>

definition nth_response_ok :: "int \<Rightarrow> int \<Rightarrow> int \<Rightarrow> int \<Rightarrow> response \<Rightarrow> bool" where
  "nth_response_ok M start reset n r =
     (x_ratelimit_limit r = M \<and> x_ratelimit_reset r = reset
      \<and> x_ratelimit_remaining r = max 0 (M - n)
      \<and> (outcome r = Next \<longleftrightarrow> n \<le> M)
      \<and> (\<forall>ra. outcome r = TooManyRequests ra \<longrightarrow> ra \<le> ceil_div (reset - start) 1000))"

text \<open>
  A request lacks a valid bearer credential when its authorization header is absent, does
  not start with \<^verbatim>\<open>Bearer \<close>, or carries a token the identity provider rejects.
\<close>

definition lacks_valid_bearer :: "(string \<Rightarrow> error + DecodedIdToken) \<Rightarrow> Request \<Rightarrow> bool" where
  "lacks_valid_bearer verifyIdToken req =
     (case authorization req of
        None \<Rightarrow> True
      | Some h \<Rightarrow> \<not> startsWith h ''Bearer '' \<or> isl (verifyIdToken (drop 7 h)))"

text \<open>
  A \<^verbatim>\<open>createReview\<close> call made by the rider of its booking, on a trip of \<open>driver\<close>: the
  reviewee is then \<open>driver\<close>, and the resolver recomputes the driver's average.
\<close>

definition reviews_driver_as_rider :: "string \<Rightarrow> Database \<Rightarrow> review_call \<Rightarrow> bool" where
  "reviews_driver_as_rider driver db call =
     (case call of (context, bookingId, rating', comment', newId) \<Rightarrow>
        (case user context of
           None \<Rightarrow> False
         | Some u \<Rightarrow>
             (case first_row (booking_with_driver bookingId (uid u) db) of
                None \<Rightarrow> False
              | Some (b, d) \<Rightarrow> rider_id b = uid u \<and> d = driver)))"

text \<open>The rating a call supplies.\<close>

fun call_rating :: "review_call \<Rightarrow> int" where
  "call_rating (context, bookingId, rating', comment', newId) = rating'"

section \<open>The rate limiter's window\<close>

lemma middleware_other_key:
  "getKey req \<noteq> key \<Longrightarrow> rateLimiterMiddleware rl req now now' = (r, rl') \<Longrightarrow>
     store rl' key = store rl key \<and> windowMs rl' = windowMs rl \<and> maxRequests rl' = maxRequests rl"
  by (auto simp: rateLimiterMiddleware_def isAllowed_def Let_def
           split: option.splits if_splits prod.splits)

lemma cleanup_in_window:
  "store rl key = Some e \<Longrightarrow> now \<le> resetTime e \<Longrightarrow>
     store (cleanup rl now) key = Some e \<and> windowMs (cleanup rl now) = windowMs rl
       \<and> maxRequests (cleanup rl now) = maxRequests rl"
  by (simp add: cleanup_def)

lemma middleware_same_window:
  assumes "store rl (getKey req) = Some e" "now \<le> resetTime e"
  shows "rateLimiterMiddleware rl req now now' =
     (\<lparr>x_ratelimit_limit = maxRequests rl,
       x_ratelimit_remaining = max 0 (maxRequests rl - (count e + 1)),
       x_ratelimit_reset = resetTime e,
       outcome = (if count e + 1 \<le> maxRequests rl then Next
                  else TooManyRequests (ceil_div (resetTime e - now') 1000))\<rparr>,
      rl\<lparr>store := (store rl)(getKey req \<mapsto> e\<lparr>count := count e + 1\<rparr>)\<rparr>)"
  using assms by (auto simp: rateLimiterMiddleware_def isAllowed_def Let_def)

lemma middleware_fresh_window:
  assumes "case store rl (getKey req) of None \<Rightarrow> True | Some e \<Rightarrow> resetTime e < now"
  shows "rateLimiterMiddleware rl req now now' =
     (\<lparr>x_ratelimit_limit = maxRequests rl,
       x_ratelimit_remaining = maxRequests rl - 1,
       x_ratelimit_reset = now + windowMs rl,
       outcome = Next\<rparr>,
      rl\<lparr>store := (store rl)(getKey req \<mapsto> \<lparr>count = 1, resetTime = now + windowMs rl\<rparr>)\<rparr>)"
  using assms
  by (auto simp: rateLimiterMiddleware_def isAllowed_def Let_def split: option.splits)

lemma ceil_div_mono: "a \<le> b \<Longrightarrow> ceil_div a 1000 \<le> ceil_div b 1000"
  unfolding ceil_div_def by (simp add: zdiv_mono1)

text \<open>
  Inside a window whose entry is \<open>e\<close>, the \<open>i\<close>-th answer to the key (from 0) is the one
  for the count \<open>count e + i + 1\<close>: sweeps and other keys' requests change nothing.
\<close>

lemma responses_in_window:
  assumes "store rl key = Some e" "\<forall>ev\<in>set es. in_window start (resetTime e) ev"
  shows "length (responses_for key rl es) = length (filter (arrives_for key) es)
     \<and> (\<forall>i < length (responses_for key rl es).
           nth_response_ok (maxRequests rl) start (resetTime e) (count e + int i + 1)
             (responses_for key rl es ! i))"
  using assms
proof (induction es arbitrary: rl e)
  case Nil
  then show ?case by simp
next
  case (Cons ev es)
  show ?case
  proof (cases ev)
    case (Sweep now)
    with Cons.prems have "now \<le> resetTime e" by simp
    from cleanup_in_window[OF Cons.prems(1) this] Cons.IH[of "cleanup rl now" e]
      Cons.prems(2) Sweep
    show ?thesis by simp
  next
    case (Arrive req now now')
    obtain r rl' where mw: "rateLimiterMiddleware rl req now now' = (r, rl')"
      by (cases "rateLimiterMiddleware rl req now now'")
    from Cons.prems Arrive have inw: "now \<le> resetTime e" "start \<le> now'" by simp_all
    show ?thesis
    proof (cases "getKey req = key")
      case False
      from middleware_other_key[OF False mw] Cons.prems(1)
      have "store rl' key = Some e" "maxRequests rl' = maxRequests rl" by simp_all
      with Cons.IH[of rl' e] Cons.prems(2) Arrive mw False show ?thesis by simp
    next
      case True
      let ?e' = "e\<lparr>count := count e + 1\<rparr>"
      from mw middleware_same_window[of rl req e now now'] Cons.prems(1) True inw(1)
      have r: "r = \<lparr>x_ratelimit_limit = maxRequests rl,
                 x_ratelimit_remaining = max 0 (maxRequests rl - (count e + 1)),
                 x_ratelimit_reset = resetTime e,
                 outcome = (if count e + 1 \<le> maxRequests rl then Next
                  else TooManyRequests (ceil_div (resetTime e - now') 1000))\<rparr>"
        and rl': "rl' = rl\<lparr>store := (store rl)(key \<mapsto> ?e')\<rparr>" by simp_all
      have first: "nth_response_ok (maxRequests rl) start (resetTime e) (count e + 1) r"
        using inw(2) by (simp add: r nth_response_ok_def ceil_div_mono)
      have st: "store rl' key = Some ?e'" by (simp add: rl')
      have "\<forall>ev\<in>set es. in_window start (resetTime ?e') ev" using Cons.prems(2) by simp
      from Cons.IH[OF st this]
      have len: "length (responses_for key rl' es) = length (filter (arrives_for key) es)"
        and rest: "\<forall>i < length (responses_for key rl' es).
           nth_response_ok (maxRequests rl) start (resetTime e) (count e + 1 + int i + 1)
             (responses_for key rl' es ! i)" by (simp_all add: rl')
      have eq: "responses_for key rl (ev # es) = r # responses_for key rl' es"
        using Arrive mw True by simp
      have "\<forall>i < length (r # responses_for key rl' es).
           nth_response_ok (maxRequests rl) start (resetTime e) (count e + int i + 1)
             ((r # responses_for key rl' es) ! i)"
      proof (intro allI impI)
        fix i assume bound: "i < length (r # responses_for key rl' es)"
        show "nth_response_ok (maxRequests rl) start (resetTime e) (count e + int i + 1)
             ((r # responses_for key rl' es) ! i)"
        proof (cases i)
          case 0
          then show ?thesis using first by simp
        next
          case (Suc j)
          with bound rest
          have "nth_response_ok (maxRequests rl) start (resetTime e) (count e + 1 + int j + 1)
             (responses_for key rl' es ! j)" by simp
          then show ?thesis using Suc by (simp add: algebra_simps)
        qed
      qed
      with eq len Arrive True show ?thesis by simp
    qed
  qed
qed

text \<open>
  C1, as the code has it. With the limit 100 and the window 900 s, let a request of a key
  arrive at \<open>now\<close> when the key has no entry or its entry's reset time is strictly before
  \<open>now\<close>. Then the request stores a fresh entry with count 1 and reset time
  \<open>now + 900 s\<close>, and of all the key's requests handled up to and including that reset
  time (whatever sweeps and other keys' requests come in between) exactly the first 100
  are passed on; each later one is answered 429 with a retry-after of at most 900 seconds,
  provided the clock read for it is not before \<open>now\<close>. Every answer carries the window's
  reset time and the remaining quota.
\<close>

theorem rate_limit_window:
  assumes "windowMs rl = 900000" and "maxRequests rl = 100"
    and "case store rl (getKey req) of None \<Rightarrow> True | Some e \<Rightarrow> resetTime e < now"
    and "\<forall>ev\<in>set es. in_window now (now + 900000) ev"
  shows "store (snd (isAllowed rl req now)) (getKey req)
           = Some \<lparr>count = 1, resetTime = now + 900000\<rparr>
     \<and> allowed (fst (isAllowed rl req now))
     \<and> length (responses_for (getKey req) rl (Arrive req now now' # es))
           = 1 + length (filter (arrives_for (getKey req)) es)
     \<and> (\<forall>i < length (responses_for (getKey req) rl (Arrive req now now' # es)).
           (outcome (responses_for (getKey req) rl (Arrive req now now' # es) ! i) = Next
              \<longleftrightarrow> i < 100)
         \<and> (\<forall>retryAfter.
               outcome (responses_for (getKey req) rl (Arrive req now now' # es) ! i)
                 = TooManyRequests retryAfter \<longrightarrow> retryAfter \<le> 900)
         \<and> x_ratelimit_reset (responses_for (getKey req) rl (Arrive req now now' # es) ! i)
             = now + 900000
         \<and> x_ratelimit_remaining (responses_for (getKey req) rl (Arrive req now now' # es) ! i)
             = max 0 (100 - (int i + 1)))"
proof -
  let ?key = "getKey req"
  let ?e = "\<lparr>count = 1, resetTime = now + 900000\<rparr>"
  let ?rl' = "rl\<lparr>store := (store rl)(?key \<mapsto> ?e)\<rparr>"
  let ?r = "\<lparr>x_ratelimit_limit = 100, x_ratelimit_remaining = 99,
            x_ratelimit_reset = now + 900000, outcome = Next\<rparr>"
  have mw: "rateLimiterMiddleware rl req now now' = (?r, ?rl')"
    using middleware_fresh_window[OF assms(3), of now'] assms(1,2) by simp
  have ia: "isAllowed rl req now =
      (\<lparr>allowed = True, decision_resetTime = now + 900000, remaining = 99\<rparr>, ?rl')"
    using assms(1,2,3) by (auto simp: isAllowed_def Let_def split: option.splits)
  have st: "store ?rl' ?key = Some ?e" by simp
  have "\<forall>ev\<in>set es. in_window now (resetTime ?e) ev" using assms(4) by simp
  from responses_in_window[OF st this]
  have len: "length (responses_for ?key ?rl' es) = length (filter (arrives_for ?key) es)"
    and rest: "\<forall>i < length (responses_for ?key ?rl' es).
        nth_response_ok 100 now (now + 900000) (1 + int i + 1) (responses_for ?key ?rl' es ! i)"
    using assms(2) by simp_all
  have eq: "responses_for ?key rl (Arrive req now now' # es) = ?r # responses_for ?key ?rl' es"
    using mw by simp
  have bound: "ceil_div (now + 900000 - now) 1000 = 900" by (simp add: ceil_div_def)
  have each: "(outcome ((?r # responses_for ?key ?rl' es) ! i) = Next \<longleftrightarrow> i < 100)
         \<and> (\<forall>retryAfter. outcome ((?r # responses_for ?key ?rl' es) ! i)
                 = TooManyRequests retryAfter \<longrightarrow> retryAfter \<le> 900)
         \<and> x_ratelimit_reset ((?r # responses_for ?key ?rl' es) ! i) = now + 900000
         \<and> x_ratelimit_remaining ((?r # responses_for ?key ?rl' es) ! i)
             = max 0 (100 - (int i + 1))"
    if "i < length (?r # responses_for ?key ?rl' es)" for i
  proof (cases i)
    case 0
    then show ?thesis by simp
  next
    case (Suc j)
    with that rest
    have "nth_response_ok 100 now (now + 900000) (1 + int j + 1) (responses_for ?key ?rl' es ! j)"
      by simp
    then show ?thesis using Suc bound by (auto simp: nth_response_ok_def)
  qed
  show ?thesis
    unfolding eq using each len by (simp add: ia)
qed

theorem rate_limit_window_witness:
  "outcome (responses_for (getKey client) rateLimiter
              (Arrive client 0 1 # Sweep 300000 # Arrive proxied_client 5 6
                 # replicate 101 (Arrive client 900000 900001)) ! 99) = Next
   \<and> outcome (responses_for (getKey client) rateLimiter
                (Arrive client 0 1 # Sweep 300000 # Arrive proxied_client 5 6
                   # replicate 101 (Arrive client 900000 900001)) ! 100) \<noteq> Next
   \<and> x_ratelimit_remaining (responses_for (getKey client) rateLimiter
                (Arrive client 0 1 # Sweep 300000 # Arrive proxied_client 5 6
                   # replicate 101 (Arrive client 900000 900001)) ! 100) = 0
   \<and> store (snd (isAllowed rateLimiter client 0)) (getKey client)
       = Some \<lparr>count = 1, resetTime = 900000\<rparr>"
proof -
  let ?es = "Sweep 300000 # Arrive proxied_client 5 6 # replicate 101 (Arrive client 900000 900001)"
  have h1: "windowMs rateLimiter = 900000" and h2: "maxRequests rateLimiter = 100"
    by (simp_all add: rateLimiter_def)
  have h3: "case store rateLimiter (getKey client) of None \<Rightarrow> True | Some e \<Rightarrow> resetTime e < 0"
    by (simp add: rateLimiter_def)
  have other: "getKey proxied_client \<noteq> getKey client"
    by (simp add: getKey_def client_def proxied_client_def)
  have h4: "\<forall>ev\<in>set ?es. in_window 0 (0 + 900000) ev" by simp
  have n: "length (filter (arrives_for (getKey client)) ?es) = 101"
    using other by simp
  from rate_limit_window[OF h1 h2 h3 h4, of 1] n
  have len: "length (responses_for (getKey client) rateLimiter (Arrive client 0 1 # ?es)) = 102"
    and st: "store (snd (isAllowed rateLimiter client 0)) (getKey client)
       = Some \<lparr>count = 1, resetTime = 900000\<rparr>"
    and each: "\<forall>i < length (responses_for (getKey client) rateLimiter (Arrive client 0 1 # ?es)).
        (outcome (responses_for (getKey client) rateLimiter (Arrive client 0 1 # ?es) ! i) = Next
           \<longleftrightarrow> i < 100)
        \<and> x_ratelimit_remaining (responses_for (getKey client) rateLimiter (Arrive client 0 1 # ?es) ! i)
            = max 0 (100 - (int i + 1))"
    by simp_all
  from each len
  have "outcome (responses_for (getKey client) rateLimiter (Arrive client 0 1 # ?es) ! 99) = Next"
    and "outcome (responses_for (getKey client) rateLimiter (Arrive client 0 1 # ?es) ! 100) \<noteq> Next"
    and "x_ratelimit_remaining (responses_for (getKey client) rateLimiter (Arrive client 0 1 # ?es) ! 100) = 0"
    by simp_all
  with st show ?thesis by simp
qed

text \<open>
  C1 as stated fails at the reset time itself: the window is open up to and including
  it. After a first request at time 0 the window ends at 900000; a request at exactly
  900000 is counted in the old window (count 2, same reset time) and no fresh entry is
  made.
\<close>

theorem rate_limit_reset_boundary_counterexample:
  "decision_resetTime (fst (isAllowed rateLimiter client 0)) = 900000
   \<and> store (snd (isAllowed (snd (isAllowed rateLimiter client 0)) client 900000)) (getKey client)
       = Some \<lparr>count = 2, resetTime = 900000\<rparr>
   \<and> store (snd (isAllowed (snd (isAllowed rateLimiter client 0)) client 900000)) (getKey client)
       \<noteq> Some \<lparr>count = 1, resetTime = 900000 + 900000\<rparr>"
  by (simp add: isAllowed_def rateLimiter_def Let_def)

section \<open>Context builder and authorization guard\<close>

text \<open>
  C2. For every request and every identity provider, \<^verbatim>\<open>authMiddleware\<close> settles to a
  context and never to an error. When the authorization header is absent or does not start
  with \<^verbatim>\<open>Bearer \<close>, the context is the unauthenticated one and there is no effect at
  all: the identity provider is not called. When the provider rejects the token, the
  context is the unauthenticated one too; the rejection is logged and not passed on.
\<close>

theorem authMiddleware_never_raises:
  "(\<exists>context. snd (authMiddleware verifyIdToken req) = Inr context)
   \<and> ((authorization req = None \<or> (\<exists>h. authorization req = Some h \<and> \<not> startsWith h ''Bearer ''))
        \<longrightarrow> authMiddleware verifyIdToken req = ([], Inr unauthenticated))
   \<and> (\<forall>h e. authorization req = Some h \<and> startsWith h ''Bearer ''
              \<and> verifyIdToken (drop 7 h) = Inl e
        \<longrightarrow> authMiddleware verifyIdToken req
              = ([VerifyIdToken (drop 7 h), LogWarn ''Invalid Firebase token:''],
                 Inr unauthenticated))"
  by (auto simp: authMiddleware_def Let_def split: option.splits sum.splits)

theorem authMiddleware_never_raises_witness:
  "authMiddleware example_provider client = ([], Inr unauthenticated)
   \<and> authMiddleware example_provider (client\<lparr>authorization := Some ''Basic cmlkZXI=''\<rparr>)
       = ([], Inr unauthenticated)
   \<and> authMiddleware example_provider (client\<lparr>authorization := Some ''Bearer stale''\<rparr>)
       = ([VerifyIdToken ''stale'', LogWarn ''Invalid Firebase token:''], Inr unauthenticated)"
  using authMiddleware_never_raises[of example_provider client]
    authMiddleware_never_raises[of example_provider "client\<lparr>authorization := Some ''Basic cmlkZXI=''\<rparr>"]
    authMiddleware_never_raises[of example_provider "client\<lparr>authorization := Some ''Bearer stale''\<rparr>"]
  by (simp add: client_def example_provider_def)

lemma requireAuth_unauthenticated:
  "requireAuth unauthenticated = Inl (Error ''Authentication required'')"
  by (simp add: requireAuth_def unauthenticated_def)

lemma authMiddleware_lacks:
  "lacks_valid_bearer verifyIdToken req \<Longrightarrow> snd (authMiddleware verifyIdToken req) = Inr unauthenticated"
  by (auto simp: lacks_valid_bearer_def authMiddleware_def Let_def isl_def split: option.splits sum.splits)

lemma classify_authentication_required:
  "errorHandler production (thrown (Error ''Authentication required''))
     = \<lparr>message = ''Authentication required'', code = ''UNAUTHENTICATED'', statusCode = 401,
        extensions = [(''code'', ''UNAUTHENTICATED'')]\<rparr>"
  by (simp add: errorHandler_def thrown_def)

text \<open>
  C3. \<^verbatim>\<open>requireAuth\<close> returns the user of a context that is authenticated and carries
  one, and fails with \<^verbatim>\<open>Authentication required\<close> on every other context; the error
  classifier maps that error to the code \<^verbatim>\<open>UNAUTHENTICATED\<close> and the status 401,
  whatever the environment. Hence, on the context built from a request that lacks a valid
  bearer credential, each resolver modelled here fails with that error before it touches
  the store.
\<close>

theorem requireAuth_authentication_required:
  "(isAuthenticated context \<and> user context = Some u \<longrightarrow> requireAuth context = Inr u)
   \<and> (\<not> (isAuthenticated context \<and> user context \<noteq> None)
        \<longrightarrow> requireAuth context = Inl (Error ''Authentication required''))
   \<and> code (errorHandler production (thrown (Error ''Authentication required''))) = ''UNAUTHENTICATED''
   \<and> statusCode (errorHandler production (thrown (Error ''Authentication required''))) = 401
   \<and> (lacks_valid_bearer verifyIdToken req \<and> snd (authMiddleware verifyIdToken req) = Inr context
        \<longrightarrow> cancelTrip context ident db = (Inl (Error ''Authentication required''), db)
          \<and> startTrip context ident db = (Inl (Error ''Authentication required''), db)
          \<and> completeTrip context ident db = (Inl (Error ''Authentication required''), db)
          \<and> deleteVehicle context ident db = (Inl (Error ''Authentication required''), db)
          \<and> confirmBooking context ident db = (Inl (Error ''Authentication required''), db)
          \<and> cancelBooking context ident db = (Inl (Error ''Authentication required''), db)
          \<and> verifyPayment context ident txn db = (Inl (Error ''Authentication required''), db)
          \<and> processRefund context ident db = (Inl (Error ''Authentication required''), db)
          \<and> createReview context ident rating' comment' newId db
              = (Inl (Error ''Authentication required''), db))"
proof -
  have guard: "isAuthenticated context \<and> user context = Some u \<longrightarrow> requireAuth context = Inr u"
    by (simp add: requireAuth_def)
  have fails: "\<not> (isAuthenticated context \<and> user context \<noteq> None)
        \<longrightarrow> requireAuth context = Inl (Error ''Authentication required'')"
    by (auto simp: requireAuth_def split: option.splits)
  have resolvers: "cancelTrip context ident db = (Inl (Error ''Authentication required''), db)
          \<and> startTrip context ident db = (Inl (Error ''Authentication required''), db)
          \<and> completeTrip context ident db = (Inl (Error ''Authentication required''), db)
          \<and> deleteVehicle context ident db = (Inl (Error ''Authentication required''), db)
          \<and> confirmBooking context ident db = (Inl (Error ''Authentication required''), db)
          \<and> cancelBooking context ident db = (Inl (Error ''Authentication required''), db)
          \<and> verifyPayment context ident txn db = (Inl (Error ''Authentication required''), db)
          \<and> processRefund context ident db = (Inl (Error ''Authentication required''), db)
          \<and> createReview context ident rating' comment' newId db
              = (Inl (Error ''Authentication required''), db)"
    if "lacks_valid_bearer verifyIdToken req" "snd (authMiddleware verifyIdToken req) = Inr context"
  proof -
    from that authMiddleware_lacks[of verifyIdToken req] have "context = unauthenticated" by simp
    then have "requireAuth context = Inl (Error ''Authentication required'')"
      by (simp add: requireAuth_unauthenticated)
    then show ?thesis
      by (simp add: cancelTrip_def startTrip_def completeTrip_def update_trip_status_def
            deleteVehicle_def confirmBooking_def cancelBooking_def verifyPayment_def
            processRefund_def createReview_def)
  qed
  show ?thesis
    using guard fails resolvers by (simp add: classify_authentication_required)
qed

theorem requireAuth_authentication_required_witness:
  "requireAuth (context_of ''rider-1'') = Inr (the (user (context_of ''rider-1'')))
   \<and> requireAuth unauthenticated = Inl (Error ''Authentication required'')
   \<and> cancelTrip unauthenticated ''t1'' example_db = (Inl (Error ''Authentication required''), example_db)"
proof -
  let ?req = "client\<lparr>authorization := Some ''Bearer stale''\<rparr>"
  have h1: "isAuthenticated (context_of ''rider-1'')
      \<and> user (context_of ''rider-1'') = Some (the (user (context_of ''rider-1'')))"
    by (simp add: context_of_def)
  have h2: "\<not> (isAuthenticated unauthenticated \<and> user unauthenticated \<noteq> None)"
    by (simp add: unauthenticated_def)
  have h3: "lacks_valid_bearer example_provider ?req
      \<and> snd (authMiddleware example_provider ?req) = Inr unauthenticated"
    by (simp add: lacks_valid_bearer_def authMiddleware_def example_provider_def client_def)
  from requireAuth_authentication_required[of "context_of ''rider-1''" "the (user (context_of ''rider-1''))"] h1
  have a: "requireAuth (context_of ''rider-1'') = Inr (the (user (context_of ''rider-1'')))"
    by blast
  from requireAuth_authentication_required[of unauthenticated _ _ example_provider ?req "''t1''" example_db] h2 h3
  have b: "requireAuth unauthenticated = Inl (Error ''Authentication required'')"
    and c: "cancelTrip unauthenticated ''t1'' example_db = (Inl (Error ''Authentication required''), example_db)"
    by blast+
  from a b c show ?thesis by simp
qed

section \<open>Conditional ownership updates\<close>

lemma first_row_returning_None:
  "(\<forall>r\<in>set rows. \<not> p r) \<Longrightarrow> first_row (returning p f rows) = None"
  by (induction rows) (auto simp: first_row_def returning_def)

lemma first_row_returning_Some:
  "(\<exists>r\<in>set rows. p r) \<Longrightarrow> \<exists>r\<in>set rows. p r \<and> first_row (returning p f rows) = Some (f r)"
  by (induction rows) (auto simp: first_row_def returning_def)

lemma update_trip_status_authenticated:
  assumes "requireAuth context = Inr u"
  shows "update_trip_status status context ident db =
     ((case first_row (returning (\<lambda>t. trip_id t = ident \<and> trip_driver_id t = uid u)
                        (\<lambda>t. t\<lparr>trip_status := status\<rparr>) (trips db)) of
         None \<Rightarrow> Inl (Error ''Trip not found or unauthorized'')
       | Some row \<Rightarrow> Inr row),
      log_query (''UPDATE trips SET trip_status = '' @ status
                   @ '' WHERE id = $1 AND driver_id = $2 RETURNING *'')
        (db\<lparr>trips := update_where (\<lambda>t. trip_id t = ident \<and> trip_driver_id t = uid u)
                        (\<lambda>t. t\<lparr>trip_status := status\<rparr>) (trips db)\<rparr>))"
  using assms by (simp add: update_trip_status_def Let_def split: option.splits)

lemma update_trip_status_spec:
  assumes "requireAuth context = Inr u"
  shows "trips (snd (update_trip_status status context ident db))
           = map (\<lambda>t. if trip_id t = ident \<and> trip_driver_id t = uid u
                       then t\<lparr>trip_status := status\<rparr> else t) (trips db)
     \<and> length (executed (snd (update_trip_status status context ident db)))
           = length (executed db) + 1
     \<and> ((\<forall>t\<in>set (trips db). \<not> (trip_id t = ident \<and> trip_driver_id t = uid u))
          \<longrightarrow> fst (update_trip_status status context ident db)
                = Inl (Error ''Trip not found or unauthorized''))
     \<and> ((\<exists>t\<in>set (trips db). trip_id t = ident \<and> trip_driver_id t = uid u)
          \<longrightarrow> (\<exists>t\<in>set (trips db). trip_id t = ident \<and> trip_driver_id t = uid u
                 \<and> fst (update_trip_status status context ident db)
                     = Inr (t\<lparr>trip_status := status\<rparr>)))"
proof -
  let ?p = "\<lambda>t. trip_id t = ident \<and> trip_driver_id t = uid u"
  let ?f = "\<lambda>t. t\<lparr>trip_status := status\<rparr>"
  note eq = update_trip_status_authenticated[OF assms, of status ident db]
  have a: "trips (snd (update_trip_status status context ident db)) = map (\<lambda>t. if ?p t then ?f t else t) (trips db)"
    by (simp add: eq log_query_def update_where_def)
  have b: "length (executed (snd (update_trip_status status context ident db))) = length (executed db) + 1"
    by (simp add: eq log_query_def)
  have c: "fst (update_trip_status status context ident db) = Inl (Error ''Trip not found or unauthorized'')"
    if "\<forall>t\<in>set (trips db). \<not> ?p t"
    using first_row_returning_None[of "trips db" ?p ?f] that by (simp add: eq)
  have d: "\<exists>t\<in>set (trips db). ?p t \<and> fst (update_trip_status status context ident db) = Inr (?f t)"
    if "\<exists>t\<in>set (trips db). ?p t"
  proof -
    from first_row_returning_Some[of "trips db" ?p ?f] that
    obtain t where "t \<in> set (trips db)" "?p t" "first_row (returning ?p ?f (trips db)) = Some (?f t)"
      by blast
    then show ?thesis by (auto simp: eq)
  qed
  from a b c d show ?thesis by blast
qed

lemma classify_not_found_or_unauthorized:
  "code (errorHandler production (thrown (Error ''Trip not found or unauthorized''))) = ''NOT_FOUND''
   \<and> statusCode (errorHandler production (thrown (Error ''Trip not found or unauthorized''))) = 404"
  by (simp add: errorHandler_def thrown_def)

text \<open>
  C4. For an authenticated caller and any trip id, each of \<^verbatim>\<open>cancelTrip\<close>,
  \<^verbatim>\<open>startTrip\<close> and \<^verbatim>\<open>completeTrip\<close> executes one statement, which sets the status
  (cancelled, active, completed) of exactly the rows whose id is the given one and whose
  driver is the caller. When no row matches, the resolver fails with
  \<^verbatim>\<open>Trip not found or unauthorized\<close> (classified as not found); otherwise it returns
  a matching row with its new status.
\<close>

theorem trip_transitions_conditional_update:
  assumes "requireAuth context = Inr u"
  shows "\<forall>(resolver, status) \<in> set [(cancelTrip, ''cancelled''), (startTrip, ''active''),
                                    (completeTrip, ''completed'')].
      trips (snd (resolver context ident db))
        = map (\<lambda>t. if trip_id t = ident \<and> trip_driver_id t = uid u
                    then t\<lparr>trip_status := status\<rparr> else t) (trips db)
    \<and> length (executed (snd (resolver context ident db))) = length (executed db) + 1
    \<and> ((\<forall>t\<in>set (trips db). \<not> (trip_id t = ident \<and> trip_driver_id t = uid u))
         \<longrightarrow> fst (resolver context ident db) = Inl (Error ''Trip not found or unauthorized''))
    \<and> ((\<exists>t\<in>set (trips db). trip_id t = ident \<and> trip_driver_id t = uid u)
         \<longrightarrow> (\<exists>t\<in>set (trips db). trip_id t = ident \<and> trip_driver_id t = uid u
                \<and> fst (resolver context ident db) = Inr (t\<lparr>trip_status := status\<rparr>)))
    \<and> code (errorHandler production (thrown (Error ''Trip not found or unauthorized'')))
        = ''NOT_FOUND''"
  using update_trip_status_spec[OF assms, of "''cancelled''" ident db]
    update_trip_status_spec[OF assms, of "''active''" ident db]
    update_trip_status_spec[OF assms, of "''completed''" ident db]
    classify_not_found_or_unauthorized[of production]
  unfolding cancelTrip_def startTrip_def completeTrip_def
  by simp

theorem trip_transitions_conditional_update_witness:
  "fst (completeTrip (context_of ''driver-1'') ''t1'' example_db)
     = Inr \<lparr>trip_id = ''t1'', trip_driver_id = ''driver-1'', trip_status = ''completed''\<rparr>
   \<and> fst (cancelTrip (context_of ''driver-2'') ''t1'' example_db)
       = Inl (Error ''Trip not found or unauthorized'')
   \<and> map trip_status (trips (snd (startTrip (context_of ''driver-1'') ''t1'' example_db)))
       = [''active'', ''scheduled'']"
proof -
  have h1: "requireAuth (context_of ''driver-1'') = Inr (the (user (context_of ''driver-1'')))"
    and h2: "requireAuth (context_of ''driver-2'') = Inr (the (user (context_of ''driver-2'')))"
    by (simp_all add: requireAuth_def context_of_def)
  from trip_transitions_conditional_update[OF h1, of "''t1''" example_db]
  have a: "fst (completeTrip (context_of ''driver-1'') ''t1'' example_db)
     = Inr \<lparr>trip_id = ''t1'', trip_driver_id = ''driver-1'', trip_status = ''completed''\<rparr>"
    and c: "map trip_status (trips (snd (startTrip (context_of ''driver-1'') ''t1'' example_db)))
       = [''active'', ''scheduled'']"
    by (simp_all add: example_db_def context_of_def)
  from trip_transitions_conditional_update[OF h2, of "''t1''" example_db]
  have b: "fst (cancelTrip (context_of ''driver-2'') ''t1'' example_db)
       = Inl (Error ''Trip not found or unauthorized'')"
    by (simp add: example_db_def context_of_def)
  from a b c show ?thesis by simp
qed

lemma cancelBooking_authenticated:
  assumes "requireAuth context = Inr u"
  shows "cancelBooking context ident db =
     ((case first_row (returning (\<lambda>b. booking_id b = ident \<and> rider_id b = uid u)
                        (\<lambda>b. b\<lparr>booking_status := ''cancelled''\<rparr>) (bookings db)) of
         None \<Rightarrow> Inl (Error ''Booking not found or unauthorized'')
       | Some row \<Rightarrow> Inr row),
      log_query ''UPDATE bookings SET booking_status = cancelled WHERE id = $1 AND rider_id = $2 RETURNING *''
        (db\<lparr>bookings := update_where (\<lambda>b. booking_id b = ident \<and> rider_id b = uid u)
                        (\<lambda>b. b\<lparr>booking_status := ''cancelled''\<rparr>) (bookings db)\<rparr>))"
  using assms by (simp add: cancelBooking_def Let_def split: option.splits)

lemma confirmBooking_authenticated:
  assumes "requireAuth context = Inr u"
  shows "confirmBooking context ident db =
     ((case first_row (returning (\<lambda>b. booking_id b = ident)
                        (\<lambda>b. b\<lparr>booking_status := ''confirmed''\<rparr>) (bookings db)) of
         None \<Rightarrow> Inl (Error ''Booking not found'')
       | Some row \<Rightarrow> Inr row),
      log_query ''UPDATE bookings SET booking_status = confirmed WHERE id = $1 RETURNING *''
        (db\<lparr>bookings := update_where (\<lambda>b. booking_id b = ident)
                        (\<lambda>b. b\<lparr>booking_status := ''confirmed''\<rparr>) (bookings db)\<rparr>))"
  using assms by (simp add: confirmBooking_def Let_def split: option.splits)

lemma update_where_no_match:
  "(\<forall>r\<in>set rows. \<not> p r) \<Longrightarrow> update_where p f rows = rows"
  by (induction rows) (auto simp: update_where_def)

lemma delete_where_no_match:
  "(\<forall>r\<in>set rows. \<not> p r) \<Longrightarrow> delete_where p rows = rows"
  by (induction rows) (auto simp: delete_where_def)

lemma deleteVehicle_authenticated:
  assumes "requireAuth context = Inr u"
  shows "deleteVehicle context ident db =
     (Inr False,
      log_query ''DELETE FROM vehicles WHERE id = $1 AND driver_id = $2''
        (db\<lparr>vehicles := delete_where (\<lambda>v. vehicle_id v = ident \<and> vehicle_driver_id v = uid u)
                          (vehicles db)\<rparr>))"
  using assms by (simp add: deleteVehicle_def without_returning_def Let_def)

text \<open>
  C5. Take an authenticated caller and an id. In one run the row with that id exists and
  belongs to somebody else; in the other run no row has that id. Then each of
  \<^verbatim>\<open>cancelTrip\<close>, \<^verbatim>\<open>startTrip\<close>, \<^verbatim>\<open>completeTrip\<close>, \<^verbatim>\<open>deleteVehicle\<close> and
  \<^verbatim>\<open>cancelBooking\<close> gives the caller the same outcome in both runs, and leaves the
  table of the first run as it was.
\<close>

theorem ownership_updates_do_not_leak:
  assumes "requireAuth context = Inr u"
  shows "((\<exists>t\<in>set (trips db). trip_id t = ident \<and> trip_driver_id t \<noteq> uid u)
          \<and> (\<forall>t\<in>set (trips db). trip_id t = ident \<longrightarrow> trip_driver_id t \<noteq> uid u)
          \<and> (\<forall>t\<in>set (trips db'). trip_id t \<noteq> ident)
         \<longrightarrow> fst (cancelTrip context ident db) = fst (cancelTrip context ident db')
           \<and> fst (startTrip context ident db) = fst (startTrip context ident db')
           \<and> fst (completeTrip context ident db) = fst (completeTrip context ident db')
           \<and> trips (snd (cancelTrip context ident db)) = trips db
           \<and> trips (snd (startTrip context ident db)) = trips db
           \<and> trips (snd (completeTrip context ident db)) = trips db)
     \<and> ((\<exists>v\<in>set (vehicles db). vehicle_id v = ident \<and> vehicle_driver_id v \<noteq> uid u)
          \<and> (\<forall>v\<in>set (vehicles db). vehicle_id v = ident \<longrightarrow> vehicle_driver_id v \<noteq> uid u)
          \<and> (\<forall>v\<in>set (vehicles db'). vehicle_id v \<noteq> ident)
         \<longrightarrow> fst (deleteVehicle context ident db) = fst (deleteVehicle context ident db')
           \<and> vehicles (snd (deleteVehicle context ident db)) = vehicles db)
     \<and> ((\<exists>b\<in>set (bookings db). booking_id b = ident \<and> rider_id b \<noteq> uid u)
          \<and> (\<forall>b\<in>set (bookings db). booking_id b = ident \<longrightarrow> rider_id b \<noteq> uid u)
          \<and> (\<forall>b\<in>set (bookings db'). booking_id b \<noteq> ident)
         \<longrightarrow> fst (cancelBooking context ident db) = fst (cancelBooking context ident db')
           \<and> bookings (snd (cancelBooking context ident db)) = bookings db)"
proof -
  let ?pt = "\<lambda>t. trip_id t = ident \<and> trip_driver_id t = uid u"
  let ?pv = "\<lambda>v. vehicle_id v = ident \<and> vehicle_driver_id v = uid u"
  let ?pb = "\<lambda>b. booking_id b = ident \<and> rider_id b = uid u"
  have trip_case:
    "fst (update_trip_status status context ident db) = fst (update_trip_status status context ident db')
     \<and> trips (snd (update_trip_status status context ident db)) = trips db"
    if "\<forall>t\<in>set (trips db). trip_id t = ident \<longrightarrow> trip_driver_id t \<noteq> uid u"
       "\<forall>t\<in>set (trips db'). trip_id t \<noteq> ident" for status
  proof -
    from that have n: "\<forall>t\<in>set (trips db). \<not> ?pt t" and n': "\<forall>t\<in>set (trips db'). \<not> ?pt t"
      by auto
    show ?thesis
      using first_row_returning_None[OF n] first_row_returning_None[OF n']
        update_where_no_match[OF n]
      by (simp add: update_trip_status_authenticated[OF assms] log_query_def)
  qed
  have vehicle_case:
    "fst (deleteVehicle context ident db) = fst (deleteVehicle context ident db')
     \<and> vehicles (snd (deleteVehicle context ident db)) = vehicles db"
    if "\<forall>v\<in>set (vehicles db). vehicle_id v = ident \<longrightarrow> vehicle_driver_id v \<noteq> uid u"
  proof -
    from that have n: "\<forall>v\<in>set (vehicles db). \<not> ?pv v" by auto
    show ?thesis
      using delete_where_no_match[OF n]
      by (simp add: deleteVehicle_authenticated[OF assms] log_query_def)
  qed
  have booking_case:
    "fst (cancelBooking context ident db) = fst (cancelBooking context ident db')
     \<and> bookings (snd (cancelBooking context ident db)) = bookings db"
    if "\<forall>b\<in>set (bookings db). booking_id b = ident \<longrightarrow> rider_id b \<noteq> uid u"
       "\<forall>b\<in>set (bookings db'). booking_id b \<noteq> ident"
  proof -
    from that have n: "\<forall>b\<in>set (bookings db). \<not> ?pb b" and n': "\<forall>b\<in>set (bookings db'). \<not> ?pb b"
      by auto
    show ?thesis
      using first_row_returning_None[OF n] first_row_returning_None[OF n']
        update_where_no_match[OF n]
      by (simp add: cancelBooking_authenticated[OF assms] log_query_def)
  qed
  show ?thesis
    using trip_case[of "''cancelled''"] trip_case[of "''active''"] trip_case[of "''completed''"]
      vehicle_case booking_case
    unfolding cancelTrip_def startTrip_def completeTrip_def
    by blast
qed

theorem ownership_updates_do_not_leak_witness:
  "fst (cancelTrip (context_of ''driver-2'') ''t1'' example_db)
     = fst (cancelTrip (context_of ''driver-2'') ''t1'' (example_db\<lparr>trips := []\<rparr>))
   \<and> fst (deleteVehicle (context_of ''driver-2'') ''v1'' example_db)
     = fst (deleteVehicle (context_of ''driver-2'') ''v1'' (example_db\<lparr>vehicles := []\<rparr>))
   \<and> fst (cancelBooking (context_of ''rider-2'') ''b1'' example_db)
     = fst (cancelBooking (context_of ''rider-2'') ''b1'' (example_db\<lparr>bookings := []\<rparr>))"
proof -
  have h1: "requireAuth (context_of ''driver-2'') = Inr (the (user (context_of ''driver-2'')))"
    and h2: "requireAuth (context_of ''rider-2'') = Inr (the (user (context_of ''rider-2'')))"
    by (simp_all add: requireAuth_def context_of_def)
  from ownership_updates_do_not_leak[OF h1, of example_db "''t1''" "example_db\<lparr>trips := []\<rparr>"]
  have a: "fst (cancelTrip (context_of ''driver-2'') ''t1'' example_db)
     = fst (cancelTrip (context_of ''driver-2'') ''t1'' (example_db\<lparr>trips := []\<rparr>))"
    by (simp add: example_db_def context_of_def)
  from ownership_updates_do_not_leak[OF h1, of example_db "''v1''" "example_db\<lparr>vehicles := []\<rparr>"]
  have b: "fst (deleteVehicle (context_of ''driver-2'') ''v1'' example_db)
     = fst (deleteVehicle (context_of ''driver-2'') ''v1'' (example_db\<lparr>vehicles := []\<rparr>))"
    by (simp add: example_db_def context_of_def)
  from ownership_updates_do_not_leak[OF h2, of example_db "''b1''" "example_db\<lparr>bookings := []\<rparr>"]
  have c: "fst (cancelBooking (context_of ''rider-2'') ''b1'' example_db)
     = fst (cancelBooking (context_of ''rider-2'') ''b1'' (example_db\<lparr>bookings := []\<rparr>))"
    by (simp add: example_db_def context_of_def)
  from a b c show ?thesis by simp
qed

text \<open>
  C10. For an authenticated caller, \<^verbatim>\<open>confirmBooking\<close> sets the status of every booking
  with the given id to confirmed, whoever its rider or driver is, and returns the row; it
  fails exactly when no booking has that id, with \<^verbatim>\<open>Booking not found\<close>.
\<close>

theorem confirmBooking_any_authenticated_caller:
  assumes "requireAuth context = Inr u"
  shows "bookings (snd (confirmBooking context ident db))
           = map (\<lambda>b. if booking_id b = ident then b\<lparr>booking_status := ''confirmed''\<rparr> else b)
               (bookings db)
     \<and> ((\<exists>b\<in>set (bookings db). booking_id b = ident)
          \<longrightarrow> (\<exists>b\<in>set (bookings db). booking_id b = ident
                 \<and> fst (confirmBooking context ident db)
                     = Inr (b\<lparr>booking_status := ''confirmed''\<rparr>)))
     \<and> ((\<forall>b\<in>set (bookings db). booking_id b \<noteq> ident)
          \<longrightarrow> fst (confirmBooking context ident db) = Inl (Error ''Booking not found''))
     \<and> (isl (fst (confirmBooking context ident db))
          \<longleftrightarrow> (\<forall>b\<in>set (bookings db). booking_id b \<noteq> ident))"
proof -
  let ?p = "\<lambda>b. booking_id b = ident"
  let ?f = "\<lambda>b. b\<lparr>booking_status := ''confirmed''\<rparr>"
  note eq = confirmBooking_authenticated[OF assms, of ident db]
  have a: "bookings (snd (confirmBooking context ident db))
             = map (\<lambda>b. if ?p b then ?f b else b) (bookings db)"
    by (simp add: eq log_query_def update_where_def)
  have c: "fst (confirmBooking context ident db) = Inl (Error ''Booking not found'')"
    if "\<forall>b\<in>set (bookings db). \<not> ?p b"
    using first_row_returning_None[of "bookings db" ?p ?f] that by (simp add: eq)
  have d: "\<exists>b\<in>set (bookings db). ?p b \<and> fst (confirmBooking context ident db) = Inr (?f b)"
    if "\<exists>b\<in>set (bookings db). ?p b"
  proof -
    from first_row_returning_Some[of "bookings db" ?p ?f] that
    obtain b where "b \<in> set (bookings db)" "?p b"
      "first_row (returning ?p ?f (bookings db)) = Some (?f b)"
      by blast
    then show ?thesis by (auto simp: eq)
  qed
  have e: "isl (fst (confirmBooking context ident db)) \<longleftrightarrow> (\<forall>b\<in>set (bookings db). \<not> ?p b)"
    using c d by (cases "\<exists>b\<in>set (bookings db). ?p b") auto
  from a c d e show ?thesis by blast
qed

theorem confirmBooking_any_authenticated_caller_witness:
  "fst (confirmBooking (context_of ''rider-3'') ''b1'' example_db)
     = Inr \<lparr>booking_id = ''b1'', booking_trip_id = ''t1'', rider_id = ''rider-1'',
            booking_status = ''confirmed'', booking_payment_status = ''pending''\<rparr>
   \<and> fst (confirmBooking (context_of ''rider-3'') ''b9'' example_db)
       = Inl (Error ''Booking not found'')"
proof -
  have h: "requireAuth (context_of ''rider-3'') = Inr (the (user (context_of ''rider-3'')))"
    by (simp add: requireAuth_def context_of_def)
  from confirmBooking_any_authenticated_caller[OF h, of "''b1''" example_db]
  have a: "fst (confirmBooking (context_of ''rider-3'') ''b1'' example_db)
     = Inr \<lparr>booking_id = ''b1'', booking_trip_id = ''t1'', rider_id = ''rider-1'',
            booking_status = ''confirmed'', booking_payment_status = ''pending''\<rparr>"
    by (simp add: example_db_def)
  from confirmBooking_any_authenticated_caller[OF h, of "''b9''" example_db]
  have b: "fst (confirmBooking (context_of ''rider-3'') ''b9'' example_db)
       = Inl (Error ''Booking not found'')"
    by (simp add: example_db_def)
  from a b show ?thesis by simp
qed

section \<open>Review creation\<close>

lemma classify_conflict:
  "code (errorHandler production (thrown (Error ''Review already exists for this booking''))) = ''CONFLICT''
   \<and> statusCode (errorHandler production (thrown (Error ''Review already exists for this booking''))) = 409"
  by (simp add: errorHandler_def thrown_def)

lemma createReview_bad_rating:
  assumes "requireAuth context = Inr u" "rating' < 1 \<or> rating' > 5"
  shows "createReview context bookingId rating' comment' newId db
           = (Inl (Error ''Rating must be between 1 and 5''), db)"
  using assms by (auto simp: createReview_def)

lemma createReview_duplicate:
  assumes "requireAuth context = Inr u"
    and "\<exists>r\<in>set (reviews db). review_booking_id r = bookingId \<and> reviewer_id r = uid u"
  shows "isl (fst (createReview context bookingId rating' comment' newId db))"
    and "reviews (snd (createReview context bookingId rating' comment' newId db)) = reviews db"
    and "1 \<le> rating' \<Longrightarrow> rating' \<le> 5 \<Longrightarrow> booking_with_driver bookingId (uid u) db \<noteq> []
           \<Longrightarrow> fst (createReview context bookingId rating' comment' newId db)
                 = Inl (Error ''Review already exists for this booking'')"
proof -
  from assms(2)
  have ex: "filter (\<lambda>r. review_booking_id r = bookingId \<and> reviewer_id r = uid u) (reviews db) \<noteq> []"
    by (auto simp: filter_empty_conv)
  show "isl (fst (createReview context bookingId rating' comment' newId db))"
    using assms(1) ex
    by (auto simp: createReview_def Let_def log_query_def split: option.splits prod.splits)
  show "reviews (snd (createReview context bookingId rating' comment' newId db)) = reviews db"
    using assms(1) ex
    by (auto simp: createReview_def Let_def log_query_def split: option.splits prod.splits)
  show "fst (createReview context bookingId rating' comment' newId db)
                 = Inl (Error ''Review already exists for this booking'')"
    if "1 \<le> rating'" "rating' \<le> 5" "booking_with_driver bookingId (uid u) db \<noteq> []"
    using assms(1) ex that
    by (auto simp: createReview_def Let_def log_query_def first_row_def
             split: option.splits prod.splits list.splits)
qed

text \<open>
  C6, as the code has it. For an authenticated caller, a rating outside 1..5 is rejected
  with \<^verbatim>\<open>Rating must be between 1 and 5\<close> before any statement is executed: the store,
  with its log of statements, is returned as it was. When a review of the same booking by
  the same reviewer exists, every further call is rejected, whatever its rating, and no
  review row is inserted; the rejection is \<^verbatim>\<open>Review already exists for this booking\<close>
  (classified as a conflict, 409) when the rating is within 1..5 and the caller is a party
  to the booking.
\<close>

theorem createReview_rejections:
  assumes "requireAuth context = Inr u"
  shows "(rating' < 1 \<or> rating' > 5
           \<longrightarrow> createReview context bookingId rating' comment' newId db
                 = (Inl (Error ''Rating must be between 1 and 5''), db))
     \<and> ((\<exists>r\<in>set (reviews db). review_booking_id r = bookingId \<and> reviewer_id r = uid u)
           \<longrightarrow> isl (fst (createReview context bookingId rating' comment' newId db))
             \<and> reviews (snd (createReview context bookingId rating' comment' newId db)) = reviews db
             \<and> (1 \<le> rating' \<and> rating' \<le> 5 \<and> booking_with_driver bookingId (uid u) db \<noteq> []
                  \<longrightarrow> fst (createReview context bookingId rating' comment' newId db)
                        = Inl (Error ''Review already exists for this booking'')))
     \<and> code (errorHandler production (thrown (Error ''Review already exists for this booking'')))
         = ''CONFLICT''
     \<and> statusCode (errorHandler production (thrown (Error ''Review already exists for this booking'')))
         = 409"
  using createReview_bad_rating[OF assms, of rating' bookingId comment' newId db]
    createReview_duplicate[OF assms, of db bookingId rating' comment' newId]
    classify_conflict[of production]
  by blast

theorem createReview_rejections_witness:
  "createReview (context_of ''rider-1'') ''b1'' 0 None ''rv2'' example_db
     = (Inl (Error ''Rating must be between 1 and 5''), example_db)
   \<and> fst (createReview (context_of ''rider-1'') ''b1'' 3 None ''rv2'' reviewed_db)
       = Inl (Error ''Review already exists for this booking'')
   \<and> reviews (snd (createReview (context_of ''rider-1'') ''b1'' 3 None ''rv2'' reviewed_db))
       = reviews reviewed_db"
proof -
  have h: "requireAuth (context_of ''rider-1'') = Inr (the (user (context_of ''rider-1'')))"
    by (simp add: requireAuth_def context_of_def)
  have dup: "\<exists>r\<in>set (reviews reviewed_db). review_booking_id r = ''b1''
                \<and> reviewer_id r = uid (the (user (context_of ''rider-1'')))"
    by (simp add: reviewed_db_def context_of_def)
  have party: "booking_with_driver ''b1'' (uid (the (user (context_of ''rider-1'')))) reviewed_db \<noteq> []"
    by (simp add: booking_with_driver_def reviewed_db_def example_db_def context_of_def)
  from createReview_rejections[OF h, of 0 "''b1''" None "''rv2''" example_db]
  have a: "createReview (context_of ''rider-1'') ''b1'' 0 None ''rv2'' example_db
     = (Inl (Error ''Rating must be between 1 and 5''), example_db)" by simp
  from createReview_rejections[OF h, of 3 "''b1''" None "''rv2''" reviewed_db] dup party
  have b: "fst (createReview (context_of ''rider-1'') ''b1'' 3 None ''rv2'' reviewed_db)
       = Inl (Error ''Review already exists for this booking'')"
    and c: "reviews (snd (createReview (context_of ''rider-1'') ''b1'' 3 None ''rv2'' reviewed_db))
       = reviews reviewed_db"
    by simp_all
  from a b c show ?thesis by simp
qed

text \<open>
  C6 as stated fails for a duplicate with a rating out of range: the range check comes
  first, so the second review of booking b1 by rider-1 with rating 7 is rejected with the
  rating error, which is not the conflict error and is not classified as a conflict.
\<close>

theorem createReview_duplicate_bad_rating_counterexample:
  "fst (createReview (context_of ''rider-1'') ''b1'' 7 None ''rv2'' reviewed_db)
     = Inl (Error ''Rating must be between 1 and 5'')
   \<and> fst (createReview (context_of ''rider-1'') ''b1'' 7 None ''rv2'' reviewed_db)
     \<noteq> Inl (Error ''Review already exists for this booking'')
   \<and> code (errorHandler True (thrown (Error ''Rating must be between 1 and 5''))) \<noteq> ''CONFLICT''
   \<and> map reviewer_id (reviews reviewed_db) = [''rider-1'']
   \<and> map review_booking_id (reviews reviewed_db) = [''b1'']"
  by (simp add: createReview_def requireAuth_def context_of_def reviewed_db_def example_db_def
        errorHandler_def thrown_def)

section \<open>Vehicle deletion\<close>

text \<open>
  C8 at a failing input: driver-1 deletes the vehicle v1, which is theirs. The row is
  removed, and the resolver answers false, because the statement hands back no rows; a
  second call answers false again.
\<close>

theorem deleteVehicle_reports_false_after_removal:
  "fst (deleteVehicle (context_of ''driver-1'') ''v1'' example_db) = Inr False
   \<and> vehicles example_db = [\<lparr>vehicle_id = ''v1'', vehicle_driver_id = ''driver-1''\<rparr>]
   \<and> vehicles (snd (deleteVehicle (context_of ''driver-1'') ''v1'' example_db)) = []
   \<and> fst (deleteVehicle (context_of ''driver-1'') ''v1''
           (snd (deleteVehicle (context_of ''driver-1'') ''v1'' example_db))) = Inr False"
  by (simp add: deleteVehicle_def requireAuth_def context_of_def example_db_def
        delete_where_def without_returning_def log_query_def Let_def)

section \<open>Payment status\<close>










section \<open>The driver's average rating\<close>

lemma floor_rat_numeral: "\<lfloor>(numeral a :: rat) / numeral b\<rfloor> = numeral a div numeral b"
  by (metis floor_divide_of_int_eq of_int_numeral)

lemma createReview_step:
  assumes "createReview context bookingId rating' comment' newId db = (Inr created, db')"
    and "reviews_driver_as_rider driver db (context, bookingId, rating', comment', newId)"
  shows "reviews db' = reviews db @ [created] \<and> rating created = rating'
     \<and> reviewee_id created = driver \<and> trips db' = trips db \<and> bookings db' = bookings db
     \<and> driver_profiles db'
         = update_where (\<lambda>p. profile_user_id p = driver)
             (\<lambda>p. p\<lparr>average_rating :=
                       map_option decimal_3_2
                         (sql_avg (map rating (filter (\<lambda>r. reviewee_id r = driver) (reviews db'))))\<rparr>)
             (driver_profiles db)"
  using assms
  by (auto simp: createReview_def reviews_driver_as_rider_def requireAuth_def Let_def
        log_query_def first_row_def
      split: option.splits if_splits prod.splits list.splits sum.splits)

lemma reviews_driver_as_rider_frame:
  assumes "trips db' = trips db" "bookings db' = bookings db"
  shows "reviews_driver_as_rider driver db' call = reviews_driver_as_rider driver db call"
proof -
  have eq: "booking_with_driver b c db' = booking_with_driver b c db" for b c
    unfolding booking_with_driver_def assms ..
  obtain ctx bookingId rating' comment' newId
    where call: "call = (ctx, bookingId, rating', comment', newId)"
    by (cases call) auto
  show ?thesis
    by (cases "user ctx") (simp_all add: reviews_driver_as_rider_def call eq)
qed

lemma update_where_average:
  assumes "p \<in> set (update_where (\<lambda>p. profile_user_id p = driver)
                       (\<lambda>p. p\<lparr>average_rating := v\<rparr>) profiles)"
    and "profile_user_id p = driver"
  shows "average_rating p = v"
proof -
  from assms(1) obtain q where "q \<in> set profiles"
    and p: "p = (if profile_user_id q = driver then q\<lparr>average_rating := v\<rparr> else q)"
    by (auto simp: update_where_def)
  with assms(2) show ?thesis by (cases "profile_user_id q = driver") simp_all
qed

lemma createReviews_run:
  assumes "createReviews calls db = Some db'"
    and "\<forall>c\<in>set calls. reviews_driver_as_rider driver db c"
  shows "map rating (filter (\<lambda>r. reviewee_id r = driver) (reviews db'))
           = map rating (filter (\<lambda>r. reviewee_id r = driver) (reviews db)) @ map call_rating calls
     \<and> trips db' = trips db \<and> bookings db' = bookings db
     \<and> (calls \<noteq> [] \<longrightarrow>
          (\<forall>p\<in>set (driver_profiles db'). profile_user_id p = driver \<longrightarrow>
             average_rating p
               = map_option decimal_3_2
                   (sql_avg (map rating (filter (\<lambda>r. reviewee_id r = driver) (reviews db'))))))"
  using assms
proof (induction calls arbitrary: db)
  case Nil
  then show ?case by simp
next
  case (Cons c cs)
  obtain ctx bookingId rating' comment' newId
    where c: "c = (ctx, bookingId, rating', comment', newId)"
    by (cases c) auto
  from Cons.prems(1) obtain created db1
    where step: "createReview ctx bookingId rating' comment' newId db = (Inr created, db1)"
      and rest: "createReviews cs db1 = Some db'"
    unfolding c by (auto split: prod.splits sum.splits)
  from Cons.prems(2)
  have "reviews_driver_as_rider driver db (ctx, bookingId, rating', comment', newId)"
    unfolding c by simp
  from createReview_step[OF step this]
  have s_reviews: "reviews db1 = reviews db @ [created]"
    and s_rating: "rating created = rating'"
    and s_reviewee: "reviewee_id created = driver"
    and s_trips: "trips db1 = trips db"
    and s_bookings: "bookings db1 = bookings db"
    and s_profiles: "driver_profiles db1
         = update_where (\<lambda>p. profile_user_id p = driver)
             (\<lambda>p. p\<lparr>average_rating :=
                       map_option decimal_3_2
                         (sql_avg (map rating (filter (\<lambda>r. reviewee_id r = driver) (reviews db1))))\<rparr>)
             (driver_profiles db)"
    by blast+
  have "\<forall>c\<in>set cs. reviews_driver_as_rider driver db1 c"
    using Cons.prems(2) reviews_driver_as_rider_frame[OF s_trips s_bookings] by simp
  from Cons.IH[OF rest this]
  have ih_ratings: "map rating (filter (\<lambda>r. reviewee_id r = driver) (reviews db'))
           = map rating (filter (\<lambda>r. reviewee_id r = driver) (reviews db1)) @ map call_rating cs"
    and ih_trips: "trips db' = trips db1" and ih_bookings: "bookings db' = bookings db1"
    and ih_profiles: "cs \<noteq> [] \<longrightarrow>
          (\<forall>p\<in>set (driver_profiles db'). profile_user_id p = driver \<longrightarrow>
             average_rating p
               = map_option decimal_3_2
                   (sql_avg (map rating (filter (\<lambda>r. reviewee_id r = driver) (reviews db')))))"
    by blast+
  have ratings: "map rating (filter (\<lambda>r. reviewee_id r = driver) (reviews db'))
           = map rating (filter (\<lambda>r. reviewee_id r = driver) (reviews db)) @ map call_rating (c # cs)"
    unfolding ih_ratings s_reviews c by (simp add: s_reviewee s_rating)
  have frame: "trips db' = trips db \<and> bookings db' = bookings db"
    by (simp add: ih_trips ih_bookings s_trips s_bookings)
  have profiles: "\<forall>p\<in>set (driver_profiles db'). profile_user_id p = driver \<longrightarrow>
             average_rating p
               = map_option decimal_3_2
                   (sql_avg (map rating (filter (\<lambda>r. reviewee_id r = driver) (reviews db'))))"
  proof (cases "cs = []")
    case True
    with rest have same: "db' = db1" by simp
    show ?thesis
      unfolding same
    proof (intro ballI impI)
      fix p assume "p \<in> set (driver_profiles db1)" "profile_user_id p = driver"
      then show "average_rating p
               = map_option decimal_3_2
                   (sql_avg (map rating (filter (\<lambda>r. reviewee_id r = driver) (reviews db1))))"
        unfolding s_profiles by (rule update_where_average)
    qed
  next
    case False
    with ih_profiles show ?thesis by blast
  qed
  from ratings frame profiles show ?case by blast
qed

lemma sum_list_call_rating_mset:
  assumes "mset calls' = mset calls"
  shows "sum_list (map call_rating calls') = sum_list (map call_rating calls)"
proof -
  have "sum_mset (mset (map call_rating calls')) = sum_mset (mset (map call_rating calls))"
    using assms by simp
  then show ?thesis by (simp only: sum_mset_sum_list)
qed

text \<open>
  C7, as the code has it. Start from a store with no review of \<open>driver\<close>, and let a
  non-empty series of \<^verbatim>\<open>createReview\<close> calls, each made by the rider of its booking on
  a trip of \<open>driver\<close>, succeed in any order \<open>calls'\<close>. Then the reviews of \<open>driver\<close> in
  the store are exactly the ratings of the calls, and every profile row of \<open>driver\<close>
  holds their arithmetic mean rounded to two decimal places, the same value for every
  order of the calls.
\<close>

theorem createReviews_average_rating:
  assumes "mset calls' = mset calls" and "calls \<noteq> []"
    and "\<forall>c\<in>set calls. reviews_driver_as_rider driver db c"
    and "\<forall>r\<in>set (reviews db). reviewee_id r \<noteq> driver"
    and "createReviews calls' db = Some db'"
  shows "mset (map rating (filter (\<lambda>r. reviewee_id r = driver) (reviews db')))
           = mset (map call_rating calls)
     \<and> (\<forall>p\<in>set (driver_profiles db'). profile_user_id p = driver \<longrightarrow>
           average_rating p
             = Some (decimal_3_2 (of_int (sum_list (map call_rating calls)) / of_nat (length calls))))"
proof -
  from assms(1) have sets: "set calls' = set calls" by (rule mset_eq_setD)
  from assms(1) have len: "length calls' = length calls" by (rule mset_eq_length)
  from assms(2) len have ne: "calls' \<noteq> []" by auto
  have none: "filter (\<lambda>r. reviewee_id r = driver) (reviews db) = []"
    using assms(4) by (auto simp: filter_empty_conv)
  from assms(3) sets have "\<forall>c\<in>set calls'. reviews_driver_as_rider driver db c" by simp
  from createReviews_run[OF assms(5) this] ne none
  have ratings: "map rating (filter (\<lambda>r. reviewee_id r = driver) (reviews db'))
                   = map call_rating calls'"
    and profiles: "\<forall>p\<in>set (driver_profiles db'). profile_user_id p = driver \<longrightarrow>
             average_rating p = map_option decimal_3_2 (sql_avg (map call_rating calls'))"
    by simp_all
  have "mset (map call_rating calls') = mset (map call_rating calls)"
    using assms(1) by simp
  with ratings have a: "mset (map rating (filter (\<lambda>r. reviewee_id r = driver) (reviews db')))
           = mset (map call_rating calls)" by simp
  have "sql_avg (map call_rating calls')
          = Some (of_int (sum_list (map call_rating calls)) / of_nat (length calls))"
    using ne len sum_list_call_rating_mset[OF assms(1)] by (simp add: sql_avg_def)
  with profiles a show ?thesis by simp
qed

theorem createReviews_average_rating_witness:
  "map average_rating (driver_profiles (the (createReviews three_reviews_reordered example_db)))
     = [Some (433 / 100)]
   \<and> map average_rating (driver_profiles (the (createReviews three_reviews example_db)))
     = [Some (433 / 100)]"
proof -
  let ?db1 = "the (createReviews three_reviews example_db)"
  let ?db2 = "the (createReviews three_reviews_reordered example_db)"
  note ev = three_reviews_def three_reviews_reordered_def example_db_def createReview_def
    requireAuth_def context_of_def booking_with_driver_def first_row_def log_query_def
    update_where_def sql_avg_def Let_def
  have h1: "mset three_reviews_reordered = mset three_reviews"
    by (simp add: three_reviews_def three_reviews_reordered_def)
  have h2: "three_reviews \<noteq> []" by (simp add: three_reviews_def)
  have h3: "\<forall>c\<in>set three_reviews. reviews_driver_as_rider ''driver-1'' example_db c"
    by (simp add: three_reviews_def reviews_driver_as_rider_def booking_with_driver_def
          first_row_def example_db_def context_of_def)
  have h4: "\<forall>r\<in>set (reviews example_db). reviewee_id r \<noteq> ''driver-1''"
    by (simp add: example_db_def)
  have run1: "createReviews three_reviews example_db = Some ?db1
      \<and> map profile_user_id (driver_profiles ?db1) = [''driver-1'']"
    by (simp add: ev)
  have run2: "createReviews three_reviews_reordered example_db = Some ?db2
      \<and> map profile_user_id (driver_profiles ?db2) = [''driver-1'']"
    by (simp add: ev)
  have mean: "Some (decimal_3_2 (of_int (sum_list (map call_rating three_reviews))
                / of_nat (length three_reviews))) = Some (433 / 100)"
    by (simp add: three_reviews_def decimal_3_2_def floor_rat_numeral)
  have single: "map average_rating ps = [v]"
    if "map profile_user_id ps = [''driver-1'']"
       "\<forall>p\<in>set ps. profile_user_id p = ''driver-1'' \<longrightarrow> average_rating p = v"
    for ps :: "DriverProfile list" and v
    using that by (cases ps) auto
  from createReviews_average_rating[OF h1 h2 h3 h4, of ?db2] run2 mean
  have a: "map average_rating (driver_profiles ?db2) = [Some (433 / 100)]"
    by (intro single) simp_all
  from createReviews_average_rating[OF refl h2 h3 h4, of ?db1] run1 mean
  have b: "map average_rating (driver_profiles ?db1) = [Some (433 / 100)]"
    by (intro single) simp_all
  from a b show ?thesis by simp
qed

text \<open>
  C7 as stated fails because the stored value is rounded: after the ratings 5, 4 and 4
  the profile holds 4.33, not the mean 13/3.
\<close>

theorem average_rating_rounded_counterexample:
  "map average_rating (driver_profiles (the (createReviews three_reviews example_db)))
     = [Some (433 / 100)]
   \<and> map reviewee_id (reviews (the (createReviews three_reviews example_db)))
     = [''driver-1'', ''driver-1'', ''driver-1'']
   \<and> map rating (reviews (the (createReviews three_reviews example_db))) = [5, 4, 4]
   \<and> (433 / 100 :: rat) \<noteq> (5 + 4 + 4) / 3"
  by (simp add: three_reviews_def example_db_def createReview_def requireAuth_def context_of_def
        booking_with_driver_def first_row_def log_query_def update_where_def sql_avg_def
        decimal_3_2_def Let_def floor_rat_numeral)

end
